theory Spec2Isabelle
  imports Main "HOL-Library.Sublist"
begin

section \<open>Python text operations used by the letter generator\<close>

text \<open>
  A Python \<open>str\<close> is a list of code points, and \<open>len\<close> is \<^const>\<open>length\<close>. The operations
  that only compare code points (\<open>split\<close>, \<open>join\<close>, \<open>startswith\<close>, \<open>endswith\<close>) are
  modelled for any type of code points. None of the operations below can raise on a
  \<open>str\<close>.
\<close>

definition newline :: char where
  "newline = CHR 0x0A"

text \<open>
  \<open>s.split(sep)\<close> for a one-character separator: it cuts at every occurrence of the
  separator, keeps empty pieces, and returns \<open>['']\<close> for the empty string. The result
  is never the empty list, so the second case of the inner \<open>case\<close> is never taken.
\<close>

fun split :: "'c \<Rightarrow> 'c list \<Rightarrow> 'c list list" where
  "split sep [] = [[]]"
| "split sep (c # cs) =
     (if c = sep then [] # split sep cs
      else (case split sep cs of
              piece # pieces \<Rightarrow> (c # piece) # pieces
            | [] \<Rightarrow> [[c]]))"

text \<open>\<open>sep.join(parts)\<close>.\<close>

fun join :: "'c list \<Rightarrow> 'c list list \<Rightarrow> 'c list" where
  "join sep [] = []"
| "join sep [p] = p"
| "join sep (p # q # ps) = p @ sep @ join sep (q # ps)"

definition startswith :: "'c list \<Rightarrow> 'c list \<Rightarrow> bool" where
  "startswith s p = (take (length p) s = p)"

definition endswith :: "'c list \<Rightarrow> 'c list \<Rightarrow> bool" where
  "endswith s p = (length p \<le> length s \<and> drop (length s - length p) s = p)"

text \<open>Truth value of a \<open>str\<close> or of \<open>None\<close>: only a non-empty text is true.\<close>

definition truthy :: "string option \<Rightarrow> bool" where
  "truthy v = (case v of None \<Rightarrow> False | Some s \<Rightarrow> s \<noteq> [])"

text \<open>
  \<open>str.strip\<close>, \<open>str.lower\<close> and the document library depend on tables that are not part
  of the repository: which code points are white space (\<open>str.isspace\<close>), the lower-case
  mapping of a text (\<open>str.lower\<close>, which is not a mapping of single code points), and
  which code points the XML layer under \<open>python-docx\<close> refuses in a text. The renderer
  takes them as a parameter, together with the code point type and the code point of
  every character that the source writes in its literals.
\<close>

record 'c unicode =
  ascii :: "char \<Rightarrow> 'c"
  isspace :: "'c \<Rightarrow> bool"
  lower :: "'c list \<Rightarrow> 'c list"
  xml_refused :: "'c \<Rightarrow> bool"

text \<open>A literal of the source as a text.\<close>

definition lit :: "'c unicode \<Rightarrow> string \<Rightarrow> 'c list" where
  "lit U s = map (ascii U) s"

text \<open>\<open>str.strip()\<close> with no argument removes leading and trailing white space.\<close>

definition lstrip :: "'c unicode \<Rightarrow> 'c list \<Rightarrow> 'c list" where
  "lstrip U s = dropWhile (isspace U) s"

definition rstrip :: "'c unicode \<Rightarrow> 'c list \<Rightarrow> 'c list" where
  "rstrip U s = rev (dropWhile (isspace U) (rev s))"

definition strip :: "'c unicode \<Rightarrow> 'c list \<Rightarrow> 'c list" where
  "strip U s = rstrip U (lstrip U s)"

subsection \<open>The tables for code points below U+0100\<close>

text \<open>
  \<^typ>\<open>char\<close> covers the code points U+0000 to U+00FF. There, the white space of
  \<open>str.isspace\<close> is the set below; \<open>str.lower\<close> moves the letters A to Z and the capital
  letters U+00C0 to U+00DE (the multiplication sign U+00D7 apart) up by 32; and the
  XML layer refuses the control characters below U+0020 other than tab, line feed and
  carriage return.
\<close>

definition latin1_isspace :: "char \<Rightarrow> bool" where
  "latin1_isspace c = (of_char c \<in> {9, 10, 11, 12, 13, 28, 29, 30, 31, 32, 133, 160 :: nat})"

definition latin1_lower_char :: "char \<Rightarrow> char" where
  "latin1_lower_char c =
     (let n = of_char c :: nat
      in if (65 \<le> n \<and> n \<le> 90) \<or> (192 \<le> n \<and> n \<le> 222 \<and> n \<noteq> 215)
         then char_of (n + 32) else c)"

definition latin1_lower :: "string \<Rightarrow> string" where
  "latin1_lower s = map latin1_lower_char s"

definition latin1_refused :: "char \<Rightarrow> bool" where
  "latin1_refused c = (of_char c < (32 :: nat) \<and> of_char c \<notin> {9, 10, 13 :: nat})"

definition latin1 :: "char unicode" where
  "latin1 =
     \<lparr>ascii = (\<lambda>c. c), isspace = latin1_isspace, lower = latin1_lower,
      xml_refused = latin1_refused\<rparr>"


section \<open>Layout renderer: \<open>create_word_document\<close> of \<open>src/app.py\<close>\<close>

text \<open>
  The loop of \<open>create_word_document\<close> takes one branch of an \<open>if\<close>/\<open>elif\<close> chain for every
  stripped line. The branch taken is the role of the line; the source names the
  branches in its comments.
\<close>

datatype block_role =
  Blank | ReferenceOrDate | Salutation | Subject | Closing | SectionHeader | Body

definition is_reference_or_date :: "'c unicode \<Rightarrow> 'c list \<Rightarrow> bool" where
  "is_reference_or_date U line =
     (startswith line (lit U ''Date:'') \<or> startswith (lower U line) (lit U ''ref:'')
      \<or> startswith (lower U line) (lit U ''reference:''))"

definition is_salutation :: "'c unicode \<Rightarrow> 'c list \<Rightarrow> bool" where
  "is_salutation U line =
     list_ex (\<lambda>salutation. startswith (lower U line) (lit U salutation))
       [''dear '', ''to whom'', ''sir'', ''madam'']"

definition is_subject :: "'c unicode \<Rightarrow> 'c list \<Rightarrow> bool" where
  "is_subject U line = startswith (lower U line) (lit U ''subject:'')"

definition is_closing :: "'c unicode \<Rightarrow> 'c list \<Rightarrow> bool" where
  "is_closing U line =
     list_ex (\<lambda>closing. startswith (lower U line) (lit U closing))
       [''yours '', ''sincerely'', ''faithfully'', ''regards'']"

definition is_section_header :: "'c unicode \<Rightarrow> 'c list \<Rightarrow> bool" where
  "is_section_header U line = (endswith line (lit U '':'') \<and> length line < 50)"

definition classify :: "'c unicode \<Rightarrow> 'c list \<Rightarrow> block_role" where
  "classify U line =
     (if line = [] then Blank
      else if is_reference_or_date U line then ReferenceOrDate
      else if is_salutation U line then Salutation
      else if is_subject U line then Subject
      else if is_closing U line then Closing
      else if is_section_header U line then SectionHeader
      else Body)"

text \<open>
  \<open>lines = loa_content.strip().split('\n')\<close>, then \<open>line = line.strip()\<close> for each line:
  the stripped lines in order, each with the branch it takes. Taking a branch has no
  effect of its own, so the loop is the classification of all lines followed by the
  building of their paragraphs in the same order.
\<close>

definition render_blocks :: "'c unicode \<Rightarrow> 'c list \<Rightarrow> ('c list \<times> block_role) list" where
  "render_blocks U loa_content =
     map (\<lambda>l. (strip U l, classify U (strip U l)))
       (split (ascii U newline) (strip U loa_content))"

text \<open>The renderer on a text of code points below U+0100.\<close>

definition render :: "string \<Rightarrow> (string \<times> block_role) list" where
  "render loa_content = render_blocks latin1 loa_content"

subsection \<open>The document of \<open>python-docx\<close>\<close>

text \<open>
  A document is a list of paragraphs, a paragraph a list of runs, and a run a list of
  elements. \<open>add_run(text)\<close> reads the text one code point at a time: a tab becomes a
  tab element, a carriage return or a line feed becomes a line break, and the code
  points between them are collected into text elements (none for an empty stretch).
  Writing a text element raises \<open>ValueError\<close> when the text contains a code point that
  the XML layer refuses.
\<close>

datatype docx_error = ValueError

datatype 'c run_element = Text "'c list" | Tab | Break

fun flush :: "'c list \<Rightarrow> 'c run_element list" where
  "flush [] = []"
| "flush (c # cs) = [Text (c # cs)]"

fun run_elements :: "'c unicode \<Rightarrow> 'c list \<Rightarrow> 'c list \<Rightarrow> 'c run_element list" where
  "run_elements U bfr [] = flush bfr"
| "run_elements U bfr (c # cs) =
     (if c = ascii U (CHR 0x09) then flush bfr @ Tab # run_elements U [] cs
      else if c = ascii U (CHR 0x0D) \<or> c = ascii U (CHR 0x0A)
           then flush bfr @ Break # run_elements U [] cs
      else run_elements U (bfr @ [c]) cs)"

fun element_refused :: "'c unicode \<Rightarrow> 'c run_element \<Rightarrow> bool" where
  "element_refused U (Text t) = list_ex (xml_refused U) t"
| "element_refused U Tab = False"
| "element_refused U Break = False"

text \<open>
  A paragraph is left-aligned unless its alignment is set; a run is bold only when the
  code sets it.
\<close>

datatype alignment = RIGHT

record 'c run =
  elements :: "'c run_element list"
  bold :: bool

record 'c para =
  alignment :: "alignment option"
  runs :: "'c run list"

record 'c document =
  top_margin :: nat
  bottom_margin :: nat
  left_margin :: nat
  right_margin :: nat
  paragraphs :: "'c para list"

definition add_run :: "'c unicode \<Rightarrow> 'c list \<Rightarrow> docx_error + 'c run" where
  "add_run U text =
     (if list_ex (element_refused U) (run_elements U [] text) then Inl ValueError
      else Inr \<lparr>elements = run_elements U [] text, bold = False\<rparr>)"

text \<open>
  The paragraph each branch adds for its line: \<open>doc.add_paragraph()\<close> alone for a blank
  line, otherwise a paragraph with one run of the line, right-aligned or bold as the
  branch sets it.
\<close>

fun paragraph_style :: "block_role \<Rightarrow> alignment option \<times> bool" where
  "paragraph_style Blank = (None, False)"
| "paragraph_style ReferenceOrDate = (Some RIGHT, True)"
| "paragraph_style Salutation = (None, False)"
| "paragraph_style Subject = (None, True)"
| "paragraph_style Closing = (None, False)"
| "paragraph_style SectionHeader = (None, True)"
| "paragraph_style Body = (None, False)"

definition add_paragraph :: "'c unicode \<Rightarrow> block_role \<Rightarrow> 'c list \<Rightarrow> docx_error + 'c para" where
  "add_paragraph U r line =
     (if r = Blank then Inr \<lparr>alignment = None, runs = []\<rparr>
      else case add_run U line of
             Inl err \<Rightarrow> Inl err
           | Inr rn \<Rightarrow>
               Inr \<lparr>alignment = fst (paragraph_style r),
                    runs = [rn\<lparr>bold := snd (paragraph_style r)\<rparr>]\<rparr>)"

text \<open>The loop: it stops at the first line whose run raises.\<close>

fun add_paragraphs :: "'c unicode \<Rightarrow> ('c list \<times> block_role) list \<Rightarrow> docx_error + 'c para list" where
  "add_paragraphs U [] = Inr []"
| "add_paragraphs U ((line, r) # blocks) =
     (case add_paragraph U r line of
        Inl err \<Rightarrow> Inl err
      | Inr p \<Rightarrow>
          (case add_paragraphs U blocks of
             Inl err \<Rightarrow> Inl err
           | Inr ps \<Rightarrow> Inr (p # ps)))"

definition create_word_document :: "'c unicode \<Rightarrow> 'c list \<Rightarrow> docx_error + 'c document" where
  "create_word_document U loa_content =
     (case add_paragraphs U (render_blocks U loa_content) of
        Inl err \<Rightarrow> Inl err
      | Inr ps \<Rightarrow>
          Inr \<lparr>top_margin = 1, bottom_margin = 1, left_margin = 1, right_margin = 1,
               paragraphs = ps\<rparr>)"

text \<open>
  A line that makes \<open>add_run\<close> raise: it contains a refused code point that is not a
  tab, a carriage return or a line feed.
\<close>

definition has_refused :: "'c unicode \<Rightarrow> 'c list \<Rightarrow> bool" where
  "has_refused U line =
     list_ex (\<lambda>c. xml_refused U c \<and> c \<noteq> ascii U (CHR 0x09) \<and> c \<noteq> ascii U (CHR 0x0D)
                 \<and> c \<noteq> ascii U (CHR 0x0A)) line"

text \<open>
  The paragraph that the loop adds for a block when its run is accepted.
\<close>

definition block_paragraph :: "'c unicode \<Rightarrow> 'c list \<times> block_role \<Rightarrow> 'c para" where
  "block_paragraph U b =
     \<lparr>alignment = fst (paragraph_style (snd b)),
      runs = (if snd b = Blank then []
              else [\<lparr>elements = run_elements U [] (fst b), bold = snd (paragraph_style (snd b))\<rparr>])\<rparr>"

text \<open>The letter of the end-to-end example, nine lines.\<close>

definition example_letter :: string where
  "example_letter =
     ''Date: 01.01.2025\<newline>'' @
     ''\<newline>'' @
     ''Dear Sir,\<newline>'' @
     ''Subject: Authorization for Hoarding\<newline>'' @
     ''Terms:\<newline>'' @
     ''This letter authorizes installation.\<newline>'' @
     ''\<newline>'' @
     ''Yours sincerely,\<newline>'' @
     ''J. Doe''"

text \<open>A letter with a form feed inside its second line.\<close>

definition form_feed_letter :: string where
  "form_feed_letter = ''Terms:\<newline>Pay within 30 days'' @ [CHR 0x0C] @ '' of invoice''"


section \<open>Parameter sets and calendar dates\<close>

text \<open>
  \<open>datetime.date\<close>: a year from 1 to 9999, a month and a day. \<open>strftime\<close> writes the day
  and the month (\<open>%d\<close>, \<open>%m\<close>) with two digits and the year (\<open>%Y\<close>) with four.
\<close>

record pydate =
  year :: nat
  month :: nat
  day :: nat

definition digit :: "nat \<Rightarrow> char" where
  "digit n = ''0123456789'' ! (n mod 10)"

definition pad2 :: "nat \<Rightarrow> string" where
  "pad2 n = [digit (n div 10), digit n]"

definition pad4 :: "nat \<Rightarrow> string" where
  "pad4 n = [digit (n div 1000), digit (n div 100), digit (n div 10), digit n]"

text \<open>\<open>d.strftime("%d.%m.%Y")\<close> and \<open>d.strftime('%Y/%m/%d')\<close>.\<close>

definition strftime_dmY :: "pydate \<Rightarrow> string" where
  "strftime_dmY d = pad2 (day d) @ ''.'' @ pad2 (month d) @ ''.'' @ pad4 (year d)"

definition strftime_Ymd :: "pydate \<Rightarrow> string" where
  "strftime_Ymd d = pad4 (year d) @ ''/'' @ pad2 (month d) @ ''/'' @ pad2 (day d)"

text \<open>
  The parameter set is the \<open>params\<close> dictionary. Every field the callers supply is a text,
  except \<open>date\<close>, which is a \<open>datetime.date\<close> or a text; the model gives the \<open>date\<close> key
  its own field, so that the other keys map to texts.
\<close>

datatype date_value = DateObj pydate | DateText string

record params =
  text_fields :: "string \<rightharpoonup> string"
  date_field :: "date_value option"

text \<open>\<open>params.get(k)\<close>, \<open>params.get(k, default)\<close> and \<open>params[k]\<close> on a text field.\<close>

definition get :: "params \<Rightarrow> string \<Rightarrow> string option" where
  "get p k = text_fields p k"

definition get_or :: "params \<Rightarrow> string \<Rightarrow> string \<Rightarrow> string" where
  "get_or p k dflt = (case text_fields p k of None \<Rightarrow> dflt | Some v \<Rightarrow> v)"

text \<open>
  The source reads \<open>params[k]\<close> only under \<open>if params.get(k)\<close>, where the key is present;
  so the lookup cannot raise \<open>KeyError\<close>, and the second case is never taken.
\<close>

definition item :: "params \<Rightarrow> string \<Rightarrow> string" where
  "item p k = (case text_fields p k of Some v \<Rightarrow> v | None \<Rightarrow> [])"


section \<open>Prompt builder\<close>

text \<open>\<open>_create_system_prompt\<close>, the same text in both source files.\<close>

definition create_system_prompt :: string where
  "create_system_prompt =
     ''\<newline>'' @
     ''        You are an expert in creating Letters of Authorization (LOAs) for outdoor advertising agencies. \<newline>'' @
     ''        Your task is to generate professional, legally-sound LOAs based on the parameters provided.\<newline>'' @
     ''        \<newline>'' @
     ''        Follow these guidelines:\<newline>'' @
     ''        1. Use formal business language appropriate for official documents\<newline>'' @
     ''        2. Structure the LOA with proper sections including reference numbers, dates, recipient details, subject line, main body, and signatory information\<newline>'' @
     ''        3. Include all necessary legal clauses regarding installation, maintenance, payments, and liability\<newline>'' @
     ''        4. Format dates as DD.MM.YYYY\<newline>'' @
     ''        5. Make the content specific to the scenario provided\<newline>'' @
     ''        6. Ensure payment terms and conditions are clearly stated\<newline>'' @
     ''        7. Include appropriate references to any tenders or previous communications when provided\<newline>'' @
     ''        \<newline>'' @
     ''        Return only the plain text content of the LOA without any explanations or additional formatting.\<newline>'' @
     ''        ''"

subsection \<open>\<open>_construct_loa_prompt\<close> of \<open>src/main.py\<close>\<close>

text \<open>
  The address segments, in the order the source appends them to \<open>address_parts\<close>: the
  company name, the three address lines, then \<open>city_pincode\<close>.
\<close>

definition city_pincode :: "params \<Rightarrow> string" where
  "city_pincode p =
     (if truthy (get p ''city'') then item p ''city'' else []) @
     (if truthy (get p ''pincode'') then '' - '' @ item p ''pincode'' else [])"

definition address_parts :: "params \<Rightarrow> string list" where
  "address_parts p =
     (if truthy (get p ''company_name'') then [item p ''company_name''] else []) @
     (if truthy (get p ''address_line1'') then [item p ''address_line1''] else []) @
     (if truthy (get p ''address_line2'') then [item p ''address_line2''] else []) @
     (if truthy (get p ''address_line3'') then [item p ''address_line3''] else []) @
     (if city_pincode p \<noteq> [] then [city_pincode p] else [])"

definition recipient_address :: "params \<Rightarrow> string" where
  "recipient_address p = join [newline] (address_parts p)"

definition date_str :: "pydate \<Rightarrow> params \<Rightarrow> string" where
  "date_str today p =
     (case date_field p of
        Some (DateObj d) \<Rightarrow> strftime_dmY d
      | Some (DateText t) \<Rightarrow> (if t \<noteq> [] then t else strftime_dmY today)
      | None \<Rightarrow> strftime_dmY today)"

text \<open>
  \<open>params.get('reference_number', 'LOA/' + datetime.date.today().strftime('%Y/%m/%d'))\<close>
\<close>

definition reference_number :: "pydate \<Rightarrow> params \<Rightarrow> string" where
  "reference_number today p = get_or p ''reference_number'' (''LOA/'' @ strftime_Ymd today)"

definition prompt_head :: "pydate \<Rightarrow> params \<Rightarrow> string" where
  "prompt_head today p =
     ''\<newline>'' @
     ''        Generate a Letter of Authorization (LOA) with the following details:\<newline>'' @
     ''        \<newline>'' @
     ''        Reference Number: '' @
     reference_number today p @
     ''\<newline>'' @
     ''        Date: '' @
     date_str today p @
     ''\<newline>'' @
     ''        \<newline>'' @
     ''        Recipient:\<newline>'' @
     ''        '' @
     recipient_address p @
     ''\<newline>'' @
     ''        \<newline>'' @
     ''        ''"

definition prompt_contact :: "params \<Rightarrow> string" where
  "prompt_contact p =
     (if truthy (get p ''contact_person'')
      then ''Kind attention: '' @ item p ''contact_person'' @ ''\<newline>'' else []) @
     (if truthy (get p ''contact_email'')
      then ''Email: '' @ item p ''contact_email'' @ ''\<newline>'' else []) @
     (if truthy (get p ''contact_phone'')
      then ''Phone: '' @ item p ''contact_phone'' @ ''\<newline>'' else [])"

definition prompt_scenario :: "params \<Rightarrow> string" where
  "prompt_scenario p =
     ''\<newline>'' @
     ''        Scenario: '' @
     get_or p ''scenario'' ''outdoor advertising'' @
     ''\<newline>'' @
     ''        \<newline>'' @
     ''        Subject: LOA for '' @
     get_or p ''scenario_description'' ''Outdoor Advertisement'' @
     '' at '' @
     get_or p ''location'' ''[Location]'' @
     ''\<newline>'' @
     ''        \<newline>'' @
     ''        Duration: '' @
     get_or p ''duration'' ''5'' @
     '' years\<newline>'' @
     ''        ''"

definition prompt_specifics :: "params \<Rightarrow> string" where
  "prompt_specifics p =
     (if truthy (get p ''size'')
      then ''Size of Advertising Space: '' @ item p ''size'' @ ''\<newline>'' else []) @
     (if truthy (get p ''payment_type'') \<and> truthy (get p ''payment_amount'')
      then
        ''\<newline>'' @
        ''            Payment Details:\<newline>'' @
        ''            - Type: '' @
        item p ''payment_type'' @
        ''\<newline>'' @
        ''            - Amount: '' @
        item p ''payment_amount'' @
        '' per '' @
        get_or p ''payment_unit'' ''square foot'' @
        ''\<newline>'' @
        ''            '' @
        (if truthy (get p ''annual_increase'')
         then ''- Annual Increase: '' @ item p ''annual_increase'' @ ''%\<newline>'' else [])
      else []) @
     (if truthy (get p ''additional_terms'')
      then
        ''\<newline>'' @
        ''            Additional Terms:\<newline>'' @
        ''            '' @
        item p ''additional_terms'' @
        ''\<newline>'' @
        ''            ''
      else [])"

definition prompt_signatory :: "params \<Rightarrow> string" where
  "prompt_signatory p =
     ''\<newline>'' @
     ''        Signatory:\<newline>'' @
     ''        Name: '' @
     get_or p ''signatory_name'' ''[Signatory Name]'' @
     ''\<newline>'' @
     ''        Position: '' @
     get_or p ''signatory_position'' ''[Position]'' @
     ''\<newline>'' @
     ''        Organization: '' @
     get_or p ''organization'' ''[Organization]'' @
     ''\<newline>'' @
     ''        '' @
     (if truthy (get p ''special_requirements'')
      then
        ''\<newline>'' @
        ''            Special Requirements:\<newline>'' @
        ''            '' @
        item p ''special_requirements'' @
        ''\<newline>'' @
        ''            ''
      else [])"

definition prompt_style :: string where
  "prompt_style =
     ''\<newline>'' @
     ''        Base the style and format on typical outdoor advertising LOAs which include:\<newline>'' @
     ''        1. A formal header with reference number and date\<newline>'' @
     ''        2. Clear recipient information\<newline>'' @
     ''        3. A specific subject line stating the purpose\<newline>'' @
     ''        4. An introduction referencing any tender or previous communication\<newline>'' @
     ''        5. A main section clearly authorizing the advertising and stating terms\<newline>'' @
     ''        6. Detailed conditions including payment terms, responsibilities, and operational requirements\<newline>'' @
     ''        7. Standard legal clauses covering liability, termination, and compliance\<newline>'' @
     ''        8. A formal closing with signatory information\<newline>'' @
     ''        ''"

text \<open>
  The prompt is the head followed by the pieces the source adds with \<open>prompt +=\<close>, in the
  order of the source.
\<close>

definition main_construct_loa_prompt :: "pydate \<Rightarrow> params \<Rightarrow> string" where
  "main_construct_loa_prompt today p =
     prompt_head today p @ prompt_contact p @ prompt_scenario p @ prompt_specifics p @
     prompt_signatory p @ prompt_style"


subsection \<open>The address block as the specification words it\<close>

text \<open>
  The specification's address block: the address segments are the company name, the
  three address lines and the city with its optional \<open> - pincode\<close> suffix, an absent field
  counting as empty; the block joins the non-empty segments with single line breaks.
  This definition follows the specification, to be compared with \<open>recipient_address\<close>.
\<close>

definition address_segments :: "params \<Rightarrow> string list" where
  "address_segments p =
     [item p ''company_name'', item p ''address_line1'', item p ''address_line2'',
      item p ''address_line3'',
      item p ''city'' @ (if item p ''pincode'' = [] then [] else '' - '' @ item p ''pincode'')]"

definition address_block_spec :: "params \<Rightarrow> string" where
  "address_block_spec p = join [newline] (filter (\<lambda>s. s \<noteq> []) (address_segments p))"

text \<open>
  A text without a line break.
\<close>

definition no_line_break :: "string \<Rightarrow> bool" where
  "no_line_break s = (newline \<notin> set s)"

subsection \<open>\<open>_construct_loa_prompt\<close> of \<open>src/app.py\<close>\<close>

definition app_construct_loa_prompt :: "pydate \<Rightarrow> params \<Rightarrow> string" where
  "app_construct_loa_prompt today p =
     ''\<newline>'' @
     ''        Generate a Letter of Authorization (LOA) with the following details:\<newline>'' @
     ''        \<newline>'' @
     ''        Date: '' @
     strftime_dmY today @
     ''\<newline>'' @
     ''        \<newline>'' @
     ''        Recipient Address:\<newline>'' @
     ''        '' @
     get_or p ''address'' [] @
     ''\<newline>'' @
     ''        \<newline>'' @
     ''        To: '' @
     get_or p ''to_whom'' ''To Whom It May Concern'' @
     ''\<newline>'' @
     ''        \<newline>'' @
     ''        Scenario: '' @
     get_or p ''scenario'' [] @
     ''\<newline>'' @
     ''        \<newline>'' @
     ''        Specific Details to Include:\<newline>'' @
     ''        '' @
     get_or p ''specific_details'' [] @
     ''\<newline>'' @
     ''        \<newline>'' @
     ''        Closing:\<newline>'' @
     ''        Yours sincerely,\<newline>'' @
     ''        '' @
     get_or p ''yours_sincerely'' [] @
     ''\<newline>'' @
     ''        \<newline>'' @
     ''        The LOA should follow a formal business letter format with:\<newline>'' @
     ''        1. Clear header with date\<newline>'' @
     ''        2. Recipient address\<newline>'' @
     ''        3. Appropriate salutation\<newline>'' @
     ''        4. A clear introduction stating the purpose of the letter\<newline>'' @
     ''        5. A main body detailing the specifics of the authorization\<newline>'' @
     ''        6. Any necessary terms and conditions\<newline>'' @
     ''        7. A formal closing with signatory information\<newline>'' @
     ''        \<newline>'' @
     ''        Ensure the content specifically addresses the scenario provided and incorporates all the specific details mentioned.\<newline>'' @
     ''        ''"


section \<open>Letter session: class \<open>LOAGenerator\<close>\<close>

text \<open>
  A chat message is the dictionary \<open>{"role": ..., "content": ...}\<close>. A request Turn has the
  role \<open>user\<close>, a response Turn the role \<open>assistant\<close>.
\<close>

record message =
  role :: string
  content :: string

definition system_message :: "string \<Rightarrow> message" where
  "system_message c = \<lparr>role = ''system'', content = c\<rparr>"

definition user_message :: "string \<Rightarrow> message" where
  "user_message c = \<lparr>role = ''user'', content = c\<rparr>"

definition assistant_message :: "string \<Rightarrow> message" where
  "assistant_message c = \<lparr>role = ''assistant'', content = c\<rparr>"

text \<open>The attributes \<open>__init__\<close> sets, and the object it builds.\<close>

record LOAGenerator =
  model :: string
  conversation_history :: "message list"
  current_loa :: "string option"

definition new_generator :: LOAGenerator where
  "new_generator = \<lparr>model = ''gpt-4'', conversation_history = [], current_loa = None\<rparr>"

text \<open>
  The external text-generation service. A call of \<open>openai.chat.completions.create\<close>
  followed by \<open>response.choices[0].message.content\<close> either yields the completion text
  or raises an exception \<open>e\<close>, kept as \<open>str(e)\<close>. The sampling arguments
  (\<open>temperature=0.2\<close>, \<open>max_tokens=2500\<close>) are the same in every call and are left to the
  service. The environment of one call is the service as it answers then, and the
  calendar date \<open>datetime.date.today()\<close>. \<open>generate_loa\<close> builds its prompt twice, for the
  request and for the transcript; both read the date of the same environment.
\<close>

datatype exn = Exception string

record request =
  req_model :: string
  req_messages :: "message list"

type_synonym service = "request \<Rightarrow> exn + string"

record env =
  create :: service
  today :: pydate

text \<open>
  What a call of a method leaves behind: the value it returns (\<open>Inr\<close>) or the exception it
  raises (\<open>Inl\<close>), the object after the call, and the request it sent to the service,
  if it sent one.
\<close>

record call_result =
  returned :: "exn + string"
  generator :: LOAGenerator
  sent :: "request option"

text \<open>The request Turn that \<open>edit_loa\<close> builds from the edit instruction.\<close>

definition edit_message :: "string \<Rightarrow> message" where
  "edit_message edit_request =
     user_message (
       ''\<newline>'' @
       ''            Edit the LOA according to the following request:\<newline>'' @
       ''            \<newline>'' @
       ''            '' @
       edit_request @
       ''\<newline>'' @
       ''            \<newline>'' @
       ''            Return the complete edited LOA.\<newline>'' @
       ''            '')"

definition no_loa_message :: string where
  "no_loa_message = ''No LOA has been generated yet. Please generate an LOA first.''"

subsection \<open>\<open>src/app.py\<close>: the service call is inside \<open>try\<close>\<close>

definition app_generate_loa :: "env \<Rightarrow> params \<Rightarrow> LOAGenerator \<Rightarrow> call_result" where
  "app_generate_loa e p self =
     (let messages =
            [system_message create_system_prompt,
             user_message (app_construct_loa_prompt (today e) p)] @
            (if conversation_history self \<noteq> [] then conversation_history self else []);
          rq = \<lparr>req_model = model self, req_messages = messages\<rparr>
      in case create e rq of
           Inr loa_content \<Rightarrow>
             \<lparr>returned = Inr loa_content,
              generator = self
                \<lparr>conversation_history :=
                   [user_message (app_construct_loa_prompt (today e) p),
                    assistant_message loa_content],
                 current_loa := Some loa_content\<rparr>,
              sent = Some rq\<rparr>
         | Inl (Exception msg) \<Rightarrow>
             \<lparr>returned = Inr (''Error generating LOA: '' @ msg),
              generator = self,
              sent = Some rq\<rparr>)"

definition app_edit_loa :: "env \<Rightarrow> string \<Rightarrow> LOAGenerator \<Rightarrow> call_result" where
  "app_edit_loa e edit_request self =
     (if \<not> truthy (current_loa self)
      then \<lparr>returned = Inr no_loa_message, generator = self, sent = None\<rparr>
      else
        let self1 = self\<lparr>conversation_history :=
                          conversation_history self @ [edit_message edit_request]\<rparr>;
            messages = [system_message create_system_prompt] @ conversation_history self1;
            rq = \<lparr>req_model = model self1, req_messages = messages\<rparr>
        in case create e rq of
             Inr edited_loa \<Rightarrow>
               \<lparr>returned = Inr edited_loa,
                generator = self1
                  \<lparr>conversation_history :=
                     conversation_history self1 @ [assistant_message edited_loa],
                   current_loa := Some edited_loa\<rparr>,
                sent = Some rq\<rparr>
           | Inl (Exception msg) \<Rightarrow>
               \<lparr>returned = Inr (''Error editing LOA: '' @ msg),
                generator = self1,
                sent = Some rq\<rparr>)"

subsection \<open>\<open>src/main.py\<close>: the service call is not inside \<open>try\<close>\<close>

definition main_generate_loa :: "env \<Rightarrow> params \<Rightarrow> LOAGenerator \<Rightarrow> call_result" where
  "main_generate_loa e p self =
     (let messages =
            [system_message create_system_prompt,
             user_message (main_construct_loa_prompt (today e) p)] @
            (if conversation_history self \<noteq> [] then conversation_history self else []);
          rq = \<lparr>req_model = model self, req_messages = messages\<rparr>
      in case create e rq of
           Inr loa_content \<Rightarrow>
             \<lparr>returned = Inr loa_content,
              generator = self
                \<lparr>conversation_history :=
                   [user_message (main_construct_loa_prompt (today e) p),
                    assistant_message loa_content],
                 current_loa := Some loa_content\<rparr>,
              sent = Some rq\<rparr>
         | Inl ex \<Rightarrow>
             \<lparr>returned = Inl ex, generator = self, sent = Some rq\<rparr>)"

definition main_edit_loa :: "env \<Rightarrow> string \<Rightarrow> LOAGenerator \<Rightarrow> call_result" where
  "main_edit_loa e edit_request self =
     (if \<not> truthy (current_loa self)
      then \<lparr>returned = Inr no_loa_message, generator = self, sent = None\<rparr>
      else
        let self1 = self\<lparr>conversation_history :=
                          conversation_history self @ [edit_message edit_request]\<rparr>;
            messages = [system_message create_system_prompt] @ conversation_history self1;
            rq = \<lparr>req_model = model self1, req_messages = messages\<rparr>
        in case create e rq of
             Inr edited_loa \<Rightarrow>
               \<lparr>returned = Inr edited_loa,
                generator = self1
                  \<lparr>conversation_history :=
                     conversation_history self1 @ [assistant_message edited_loa],
                   current_loa := Some edited_loa\<rparr>,
                sent = Some rq\<rparr>
           | Inl ex \<Rightarrow>
               \<lparr>returned = Inl ex, generator = self1, sent = Some rq\<rparr>)"

subsection \<open>Sequences of calls on one session\<close>

text \<open>
  A call is \<open>generate_loa(params)\<close> or \<open>edit_loa(edit_request)\<close>, made in the environment
  of its moment. A caller that goes on after a call keeps the object as the call left
  it, also when the call raised.
\<close>

datatype call = Generate params | Edit string

fun app_call :: "env \<Rightarrow> call \<Rightarrow> LOAGenerator \<Rightarrow> call_result" where
  "app_call e (Generate p) self = app_generate_loa e p self"
| "app_call e (Edit edit_request) self = app_edit_loa e edit_request self"

fun main_call :: "env \<Rightarrow> call \<Rightarrow> LOAGenerator \<Rightarrow> call_result" where
  "main_call e (Generate p) self = main_generate_loa e p self"
| "main_call e (Edit edit_request) self = main_edit_loa e edit_request self"

fun app_run :: "LOAGenerator \<Rightarrow> (env \<times> call) list \<Rightarrow> LOAGenerator" where
  "app_run self [] = self"
| "app_run self ((e, c) # calls) = app_run (generator (app_call e c self)) calls"

fun main_run :: "LOAGenerator \<Rightarrow> (env \<times> call) list \<Rightarrow> LOAGenerator" where
  "main_run self [] = self"
| "main_run self ((e, c) # calls) = main_run (generator (main_call e c self)) calls"

text \<open>
  A call succeeded when it sent a request and the service answered it with a text.
\<close>

definition succeeded :: "env \<Rightarrow> call_result \<Rightarrow> bool" where
  "succeeded e r = (case sent r of None \<Rightarrow> False | Some rq \<Rightarrow> \<not> isl (create e rq))"

text \<open>
  The service call failed when the call sent a request and the service raised on it.
\<close>

definition service_failed :: "env \<Rightarrow> call_result \<Rightarrow> bool" where
  "service_failed e r = (case sent r of None \<Rightarrow> False | Some rq \<Rightarrow> isl (create e rq))"

text \<open>
  Whether a failed revision has left its request Turn in the transcript: it is so from
  an \<open>edit_loa\<close> whose service call raised, until the next \<open>generate_loa\<close> that
  succeeds. The flag \<open>b\<close> is the value before the calls.
\<close>

fun app_edit_pending :: "bool \<Rightarrow> LOAGenerator \<Rightarrow> (env \<times> call) list \<Rightarrow> bool" where
  "app_edit_pending b self [] = b"
| "app_edit_pending b self ((e, Generate p) # calls) =
     app_edit_pending (b \<and> \<not> succeeded e (app_generate_loa e p self))
       (generator (app_generate_loa e p self)) calls"
| "app_edit_pending b self ((e, Edit r) # calls) =
     app_edit_pending (b \<or> service_failed e (app_edit_loa e r self))
       (generator (app_edit_loa e r self)) calls"

text \<open>A run of \<open>src/main.py\<close> in which every call succeeded.\<close>

fun main_all_succeeded :: "LOAGenerator \<Rightarrow> (env \<times> call) list \<Rightarrow> bool" where
  "main_all_succeeded self [] = True"
| "main_all_succeeded self ((e, c) # calls) =
     (succeeded e (main_call e c self) \<and>
      main_all_succeeded (generator (main_call e c self)) calls)"

text \<open>A sequence of revisions, each in its environment.\<close>

definition edits :: "(env \<times> string) list \<Rightarrow> (env \<times> call) list" where
  "edits rs = map (\<lambda>(e, r). (e, Edit r)) rs"

text \<open>
  The requests that \<open>generate_loa\<close> and \<open>edit_loa\<close> of \<open>src/main.py\<close> send: the model
  and the message list \<open>messages\<close> of the method.
\<close>

definition generate_request :: "env \<Rightarrow> params \<Rightarrow> LOAGenerator \<Rightarrow> request" where
  "generate_request e p self =
     \<lparr>req_model = model self,
      req_messages = [system_message create_system_prompt,
                      user_message (main_construct_loa_prompt (today e) p)] @
                     conversation_history self\<rparr>"

definition edit_request_sent :: "string \<Rightarrow> LOAGenerator \<Rightarrow> request" where
  "edit_request_sent r self =
     \<lparr>req_model = model self,
      req_messages = system_message create_system_prompt #
                     conversation_history self @ [edit_message r]\<rparr>"

text \<open>
  The Turns that a list of revisions, each with the answer it got, adds to the
  transcript.
\<close>

definition revision_turns :: "(string \<times> string) list \<Rightarrow> message list" where
  "revision_turns rts = concat (map (\<lambda>(r, t). [edit_message r, assistant_message t]) rts)"

text \<open>The roles of the Turns of a transcript, and how many Turns have a given role.\<close>

definition roles :: "message list \<Rightarrow> string list" where
  "roles h = map role h"

definition requests :: "message list \<Rightarrow> nat" where
  "requests h = length (filter (\<lambda>m. role m = ''user'') h)"

definition responses :: "message list \<Rightarrow> nat" where
  "responses h = length (filter (\<lambda>m. role m = ''assistant'') h)"

text \<open>
  Strict interleaving: the transcript is a sequence of pairs, a request Turn and then
  a response Turn.
\<close>

fun strictly_interleaved :: "string list \<Rightarrow> bool" where
  "strictly_interleaved [] = True"
| "strictly_interleaved [r] = False"
| "strictly_interleaved (r # r' # rs) =
     (r = ''user'' \<and> r' = ''assistant'' \<and> strictly_interleaved rs)"

text \<open>
  The weaker order: every Turn is a request or a response, and every response Turn
  comes directly after a request Turn.
\<close>

fun request_before_response :: "string list \<Rightarrow> bool" where
  "request_before_response [] = True"
| "request_before_response [r] = (r = ''user'')"
| "request_before_response (r # r' # rs) =
     (r = ''user'' \<and>
      (if r' = ''assistant'' then request_before_response rs
       else request_before_response (r' # rs)))"


section \<open>Concrete sessions used as examples\<close>

definition example_day :: pydate where
  "example_day = \<lparr>year = 2025, month = 1, day = 9\<rparr>"

definition example_params :: params where
  "example_params =
     \<lparr>text_fields = [''company_name'' \<mapsto> ''Wallop Advertising Private Limited'',
                      ''address_line2'' \<mapsto> [],
                      ''city'' \<mapsto> ''Mumbai'', ''pincode'' \<mapsto> ''400051''],
      date_field = None\<rparr>"

text \<open>A service that answers every request with the text \<open>t\<close>, and one that raises.\<close>

definition answering :: "string \<Rightarrow> env" where
  "answering t = \<lparr>create = (\<lambda>rq. Inr t), today = example_day\<rparr>"

definition failing :: "string \<Rightarrow> env" where
  "failing msg = \<lparr>create = (\<lambda>rq. Inl (Exception msg)), today = example_day\<rparr>"

text \<open>An active session: the new object after one answered \<open>generate_loa\<close>.\<close>

definition example_active :: LOAGenerator where
  "example_active =
     generator (app_generate_loa (answering example_letter) example_params new_generator)"

text \<open>The active session after an \<open>edit_loa\<close> whose service call raised.\<close>

definition example_dangling :: LOAGenerator where
  "example_dangling = generator (app_edit_loa (failing ''timeout'') ''Shorten it'' example_active)"

text \<open>A run of three calls: generate answered, edit failed, edit answered.\<close>

definition failed_edit_run :: "(env \<times> call) list" where
  "failed_edit_run =
     [(answering example_letter, Generate example_params),
      (failing ''timeout'', Edit ''Shorten it''),
      (answering ''Dear Madam,'', Edit ''Address a woman'')]"

text \<open>A run of two answered generations.\<close>

definition two_generations :: "(env \<times> call) list" where
  "two_generations =
     [(answering example_letter, Generate example_params),
      (answering ''Dear Madam,'', Generate example_params)]"

text \<open>
  A parameter set whose address fields are empty or absent, and one that supplies a
  reference number.
\<close>

definition empty_address_params :: params where
  "empty_address_params =
     \<lparr>text_fields = [''company_name'' \<mapsto> [], ''city'' \<mapsto> [], ''scenario'' \<mapsto> ''Billboard''],
      date_field = None\<rparr>"


text \<open>
  A run whose first generation fails, and the run of the failed revision followed by
  a new generation.
\<close>

definition failed_generate_run :: "(env \<times> call) list" where
  "failed_generate_run =
     [(failing ''timeout'', Generate example_params),
      (answering example_letter, Generate example_params),
      (answering ''Dear Madam,'', Edit ''Address a woman'')]"

definition recovered_run :: "(env \<times> call) list" where
  "recovered_run = failed_edit_run @ [(answering example_letter, Generate example_params)]"

text \<open>
  Two revisions, each with a service that answers it.
\<close>

definition example_revisions :: "(env \<times> string) list" where
  "example_revisions =
     [(answering ''Dear Madam,'', ''Address a woman''), (answering ''Dear Sir,'', ''Address a man'')]"


section \<open>Facts about the text operations\<close>

lemma split_not_Nil: "split sep s \<noteq> []"
  by (induction s) (auto split: list.splits)

lemma length_split: "length (split sep s) = Suc (length (filter (\<lambda>c. c = sep) s))"
  by (induction s) (auto simp: split_not_Nil split: list.splits)

lemma strip_Nil: "strip U [] = []"
  by (simp add: strip_def rstrip_def lstrip_def)


lemma startswith_prefix: "startswith s p \<longleftrightarrow> prefix p s"
  by (auto simp: startswith_def prefix_def) (metis append_take_drop_id)

lemma endswith_suffix: "endswith s p \<longleftrightarrow> suffix p s"
proof
  assume "endswith s p"
  then have "s = take (length s - length p) s @ p"
    by (metis append_take_drop_id endswith_def)
  then show "suffix p s"
    by (metis suffixI)
next
  assume "suffix p s"
  then obtain q where "s = q @ p"
    by (auto simp: suffix_def)
  then show "endswith s p"
    by (simp add: endswith_def)
qed

lemma join_split: "join [sep] (split sep s) = s"
proof (induction s)
  case Nil
  then show ?case by simp
next
  case (Cons c cs)
  obtain piece pieces where sp: "split sep cs = piece # pieces"
    by (cases "split sep cs") (simp_all add: split_not_Nil)
  show ?case
  proof (cases "c = sep")
    case True
    with Cons sp show ?thesis by simp
  next
    case False
    with Cons sp show ?thesis
      by (cases pieces) simp_all
  qed
qed

lemma split_pieces: "list_all (\<lambda>piece. sep \<notin> set piece) (split sep s)"
  by (induction s) (auto split: list.splits)

lemma strip_shape:
  "\<exists>before after. s = before @ strip U s @ after
     \<and> list_all (isspace U) before \<and> list_all (isspace U) after"
proof -
  let ?l = "dropWhile (isspace U) s"
  have a: "s = takeWhile (isspace U) s @ ?l"
    by simp
  have b: "?l = strip U s @ rev (takeWhile (isspace U) (rev ?l))"
  proof -
    have "rev ?l = takeWhile (isspace U) (rev ?l) @ dropWhile (isspace U) (rev ?l)"
      by simp
    then have "rev (rev ?l) =
        rev (dropWhile (isspace U) (rev ?l)) @ rev (takeWhile (isspace U) (rev ?l))"
      by (metis rev_append)
    then show ?thesis
      by (simp add: strip_def rstrip_def lstrip_def)
  qed
  have c: "list_all (isspace U) (takeWhile (isspace U) s)"
    by (simp add: list_all_iff) (meson set_takeWhileD)
  have d: "list_all (isspace U) (rev (takeWhile (isspace U) (rev ?l)))"
    by (simp add: list_all_iff) (meson set_takeWhileD)
  from a b have "s = takeWhile (isspace U) s @ strip U s @ rev (takeWhile (isspace U) (rev ?l))"
    by metis
  with c d show ?thesis by blast
qed

lemma strip_ends:
  "strip U s = [] \<or> (\<not> isspace U (hd (strip U s)) \<and> \<not> isspace U (last (strip U s)))"
proof (cases "strip U s = []")
  case True
  then show ?thesis by simp
next
  case False
  define l where "l = dropWhile (isspace U) s"
  define r where "r = dropWhile (isspace U) (rev l)"
  have s: "strip U s = rev r"
    by (simp add: strip_def rstrip_def lstrip_def l_def r_def)
  with False have r: "r \<noteq> []" by simp
  have lne: "l \<noteq> []"
  proof
    assume "l = []"
    then have "r = []" by (simp add: r_def)
    with r show False by simp
  qed
  have hr: "\<not> isspace U (hd r)"
    using r unfolding r_def by (rule hd_dropWhile)
  have hl: "\<not> isspace U (hd l)"
    using lne unfolding l_def by (rule hd_dropWhile)
  obtain x xs where x: "l = x # xs"
    using lne by (cases l) auto
  from hl x have nx: "\<not> isspace U x" by simp
  have "r = dropWhile (isspace U) (rev xs @ [x])"
    by (simp add: r_def x)
  then have "r = dropWhile (isspace U) (rev xs) @ [x] \<or> r = [x]"
    using nx by (simp add: dropWhile_append split: if_splits)
  then have "rev r = x # rev (dropWhile (isspace U) (rev xs)) \<or> rev r = [x]"
    by auto
  then have "hd (rev r) = x"
    by auto
  with nx have first: "\<not> isspace U (hd (strip U s))"
    by (simp add: s)
  have "last (rev r) = hd r"
    using r by (simp add: last_rev)
  with hr have "\<not> isspace U (last (strip U s))"
    by (simp add: s)
  with first show ?thesis by simp
qed


section \<open>What a call sends to the service\<close>

lemma app_edit_guard:
  "\<not> truthy (current_loa self) \<Longrightarrow>
   app_edit_loa e r self = \<lparr>returned = Inr no_loa_message, generator = self, sent = None\<rparr>"
  by (simp add: app_edit_loa_def)

lemma main_edit_guard:
  "\<not> truthy (current_loa self) \<Longrightarrow>
   main_edit_loa e r self = \<lparr>returned = Inr no_loa_message, generator = self, sent = None\<rparr>"
  by (simp add: main_edit_loa_def)

lemma app_generate_sent:
  "sent (app_generate_loa e p self) =
     Some \<lparr>req_model = model self,
           req_messages = [system_message create_system_prompt,
                           user_message (app_construct_loa_prompt (today e) p)] @
                          conversation_history self\<rparr>"
  by (auto simp: app_generate_loa_def Let_def split: sum.splits exn.splits)

lemma main_generate_sent:
  "sent (main_generate_loa e p self) =
     Some \<lparr>req_model = model self,
           req_messages = [system_message create_system_prompt,
                           user_message (main_construct_loa_prompt (today e) p)] @
                          conversation_history self\<rparr>"
  by (auto simp: main_generate_loa_def Let_def split: sum.splits exn.splits)

lemma app_edit_sent:
  "truthy (current_loa self) \<Longrightarrow>
   sent (app_edit_loa e r self) =
     Some \<lparr>req_model = model self,
           req_messages = system_message create_system_prompt #
                          conversation_history self @ [edit_message r]\<rparr>"
  by (auto simp: app_edit_loa_def Let_def split: sum.splits exn.splits)

lemma main_edit_sent:
  "truthy (current_loa self) \<Longrightarrow>
   sent (main_edit_loa e r self) =
     Some \<lparr>req_model = model self,
           req_messages = system_message create_system_prompt #
                          conversation_history self @ [edit_message r]\<rparr>"
  by (auto simp: main_edit_loa_def Let_def split: sum.splits exn.splits)

lemma extend_history: "(if h \<noteq> [] then h else []) = (h :: message list)"
  by simp

lemma app_generate_failed:
  "create e \<lparr>req_model = model self,
            req_messages = [system_message create_system_prompt,
                            user_message (app_construct_loa_prompt (today e) p)] @
                           conversation_history self\<rparr> = Inl (Exception msg) \<Longrightarrow>
   app_generate_loa e p self =
     \<lparr>returned = Inr (''Error generating LOA: '' @ msg), generator = self,
      sent = Some \<lparr>req_model = model self,
            req_messages = [system_message create_system_prompt,
                            user_message (app_construct_loa_prompt (today e) p)] @
                           conversation_history self\<rparr>\<rparr>"
  by (simp add: app_generate_loa_def Let_def extend_history)

lemma main_generate_failed:
  "create e \<lparr>req_model = model self,
            req_messages = [system_message create_system_prompt,
                            user_message (main_construct_loa_prompt (today e) p)] @
                           conversation_history self\<rparr> = Inl ex \<Longrightarrow>
   main_generate_loa e p self =
     \<lparr>returned = Inl ex, generator = self,
      sent = Some \<lparr>req_model = model self,
            req_messages = [system_message create_system_prompt,
                            user_message (main_construct_loa_prompt (today e) p)] @
                           conversation_history self\<rparr>\<rparr>"
  by (simp add: main_generate_loa_def Let_def extend_history)

lemma app_generate_answered:
  "create e \<lparr>req_model = model self,
            req_messages = [system_message create_system_prompt,
                            user_message (app_construct_loa_prompt (today e) p)] @
                           conversation_history self\<rparr> = Inr t \<Longrightarrow>
   app_generate_loa e p self =
     \<lparr>returned = Inr t,
      generator = self\<lparr>conversation_history :=
                         [user_message (app_construct_loa_prompt (today e) p),
                          assistant_message t],
                       current_loa := Some t\<rparr>,
      sent = Some \<lparr>req_model = model self,
            req_messages = [system_message create_system_prompt,
                            user_message (app_construct_loa_prompt (today e) p)] @
                           conversation_history self\<rparr>\<rparr>"
  by (simp add: app_generate_loa_def Let_def extend_history)

lemma main_generate_answered:
  "create e \<lparr>req_model = model self,
            req_messages = [system_message create_system_prompt,
                            user_message (main_construct_loa_prompt (today e) p)] @
                           conversation_history self\<rparr> = Inr t \<Longrightarrow>
   main_generate_loa e p self =
     \<lparr>returned = Inr t,
      generator = self\<lparr>conversation_history :=
                         [user_message (main_construct_loa_prompt (today e) p),
                          assistant_message t],
                       current_loa := Some t\<rparr>,
      sent = Some \<lparr>req_model = model self,
            req_messages = [system_message create_system_prompt,
                            user_message (main_construct_loa_prompt (today e) p)] @
                           conversation_history self\<rparr>\<rparr>"
  by (simp add: main_generate_loa_def Let_def extend_history)

lemma app_edit_failed:
  "truthy (current_loa self) \<Longrightarrow>
   create e \<lparr>req_model = model self,
            req_messages = system_message create_system_prompt #
                           conversation_history self @ [edit_message r]\<rparr> = Inl (Exception msg) \<Longrightarrow>
   app_edit_loa e r self =
     \<lparr>returned = Inr (''Error editing LOA: '' @ msg),
      generator = self\<lparr>conversation_history := conversation_history self @ [edit_message r]\<rparr>,
      sent = Some \<lparr>req_model = model self,
            req_messages = system_message create_system_prompt #
                           conversation_history self @ [edit_message r]\<rparr>\<rparr>"
  by (simp add: app_edit_loa_def Let_def)

lemma main_edit_failed:
  "truthy (current_loa self) \<Longrightarrow>
   create e \<lparr>req_model = model self,
            req_messages = system_message create_system_prompt #
                           conversation_history self @ [edit_message r]\<rparr> = Inl ex \<Longrightarrow>
   main_edit_loa e r self =
     \<lparr>returned = Inl ex,
      generator = self\<lparr>conversation_history := conversation_history self @ [edit_message r]\<rparr>,
      sent = Some \<lparr>req_model = model self,
            req_messages = system_message create_system_prompt #
                           conversation_history self @ [edit_message r]\<rparr>\<rparr>"
  by (simp add: main_edit_loa_def Let_def)

lemma app_edit_answered:
  "truthy (current_loa self) \<Longrightarrow>
   create e \<lparr>req_model = model self,
            req_messages = system_message create_system_prompt #
                           conversation_history self @ [edit_message r]\<rparr> = Inr t \<Longrightarrow>
   app_edit_loa e r self =
     \<lparr>returned = Inr t,
      generator = self\<lparr>conversation_history :=
                         conversation_history self @ [edit_message r, assistant_message t],
                       current_loa := Some t\<rparr>,
      sent = Some \<lparr>req_model = model self,
            req_messages = system_message create_system_prompt #
                           conversation_history self @ [edit_message r]\<rparr>\<rparr>"
  by (simp add: app_edit_loa_def Let_def)

lemma main_edit_answered:
  "truthy (current_loa self) \<Longrightarrow>
   create e \<lparr>req_model = model self,
            req_messages = system_message create_system_prompt #
                           conversation_history self @ [edit_message r]\<rparr> = Inr t \<Longrightarrow>
   main_edit_loa e r self =
     \<lparr>returned = Inr t,
      generator = self\<lparr>conversation_history :=
                         conversation_history self @ [edit_message r, assistant_message t],
                       current_loa := Some t\<rparr>,
      sent = Some \<lparr>req_model = model self,
            req_messages = system_message create_system_prompt #
                           conversation_history self @ [edit_message r]\<rparr>\<rparr>"
  by (simp add: main_edit_loa_def Let_def)

lemma succeeded_app_edit:
  "succeeded e (app_edit_loa e r self) \<Longrightarrow> truthy (current_loa self)"
  by (cases "truthy (current_loa self)") (simp_all add: app_edit_guard succeeded_def)

lemma succeeded_main_edit:
  "succeeded e (main_edit_loa e r self) \<Longrightarrow> truthy (current_loa self)"
  by (cases "truthy (current_loa self)") (simp_all add: main_edit_guard succeeded_def)

lemma not_isl_Inr: "\<not> isl x \<Longrightarrow> \<exists>t. x = Inr t"
  by (cases x) simp_all

lemma main_generate_succeeded:
  assumes "succeeded e (main_generate_loa e p self)"
  shows "\<exists>t. returned (main_generate_loa e p self) = Inr t
           \<and> generator (main_generate_loa e p self) =
               self\<lparr>conversation_history :=
                      [user_message (main_construct_loa_prompt (today e) p), assistant_message t],
                    current_loa := Some t\<rparr>"
proof -
  from assms obtain t where
    "create e \<lparr>req_model = model self,
            req_messages = [system_message create_system_prompt,
                            user_message (main_construct_loa_prompt (today e) p)] @
                           conversation_history self\<rparr> = Inr t"
    using not_isl_Inr by (fastforce simp: succeeded_def main_generate_sent)
  then show ?thesis
    by (simp add: main_generate_answered)
qed

lemma app_generate_succeeded:
  assumes "succeeded e (app_generate_loa e p self)"
  shows "\<exists>t. returned (app_generate_loa e p self) = Inr t
           \<and> generator (app_generate_loa e p self) =
               self\<lparr>conversation_history :=
                      [user_message (app_construct_loa_prompt (today e) p), assistant_message t],
                    current_loa := Some t\<rparr>"
proof -
  from assms obtain t where
    "create e \<lparr>req_model = model self,
            req_messages = [system_message create_system_prompt,
                            user_message (app_construct_loa_prompt (today e) p)] @
                           conversation_history self\<rparr> = Inr t"
    using not_isl_Inr by (fastforce simp: succeeded_def app_generate_sent)
  then show ?thesis
    by (simp add: app_generate_answered)
qed

lemma main_edit_succeeded:
  assumes "succeeded e (main_edit_loa e r self)"
  shows "\<exists>t. returned (main_edit_loa e r self) = Inr t
           \<and> generator (main_edit_loa e r self) =
               self\<lparr>conversation_history :=
                      conversation_history self @ [edit_message r, assistant_message t],
                    current_loa := Some t\<rparr>"
proof -
  have tr: "truthy (current_loa self)"
    using assms by (rule succeeded_main_edit)
  with assms obtain t where
    "create e \<lparr>req_model = model self,
            req_messages = system_message create_system_prompt #
                           conversation_history self @ [edit_message r]\<rparr> = Inr t"
    using not_isl_Inr by (fastforce simp: succeeded_def main_edit_sent)
  with tr show ?thesis
    by (simp add: main_edit_answered)
qed

lemma app_edit_succeeded:
  assumes "succeeded e (app_edit_loa e r self)"
  shows "\<exists>t. returned (app_edit_loa e r self) = Inr t
           \<and> generator (app_edit_loa e r self) =
               self\<lparr>conversation_history :=
                      conversation_history self @ [edit_message r, assistant_message t],
                    current_loa := Some t\<rparr>"
proof -
  have tr: "truthy (current_loa self)"
    using assms by (rule succeeded_app_edit)
  with assms obtain t where
    "create e \<lparr>req_model = model self,
            req_messages = system_message create_system_prompt #
                           conversation_history self @ [edit_message r]\<rparr> = Inr t"
    using not_isl_Inr by (fastforce simp: succeeded_def app_edit_sent)
  with tr show ?thesis
    by (simp add: app_edit_answered)
qed

lemma roles_simps:
  "role (user_message c) = ''user''" "role (assistant_message c) = ''assistant''"
  "role (edit_message r) = ''user''"
  "content (user_message c) = c" "content (assistant_message c) = c"
  by (simp_all add: user_message_def assistant_message_def edit_message_def)

lemma concrete_env:
  "create (answering t) rq = Inr t" "create (failing msg) rq = Inl (Exception msg)"
  "today (answering t) = example_day" "today (failing msg) = example_day"
  by (simp_all add: answering_def failing_def)

lemma new_generator_simps:
  "model new_generator = ''gpt-4''" "conversation_history new_generator = []"
  "current_loa new_generator = None"
  by (simp_all add: new_generator_def)

lemma example_active_eq:
  "example_active =
     \<lparr>model = ''gpt-4'',
      conversation_history =
        [user_message (app_construct_loa_prompt example_day example_params),
         assistant_message example_letter],
      current_loa = Some example_letter\<rparr>"
  by (simp add: example_active_def app_generate_answered concrete_env new_generator_def)

lemma example_letter_not_Nil: "example_letter \<noteq> []"
  by (simp add: example_letter_def)

lemma example_active_truthy: "truthy (current_loa example_active)"
  by (simp add: example_active_eq truthy_def example_letter_not_Nil)

lemma example_dangling_eq:
  "example_dangling =
     \<lparr>model = ''gpt-4'',
      conversation_history =
        [user_message (app_construct_loa_prompt example_day example_params),
         assistant_message example_letter, edit_message ''Shorten it''],
      current_loa = Some example_letter\<rparr>"
  by (simp add: example_dangling_def app_edit_failed example_active_truthy concrete_env)
     (simp add: example_active_eq)

lemma app_run_failed_edit_run:
  "conversation_history (app_run new_generator failed_edit_run) =
     [user_message (app_construct_loa_prompt example_day example_params),
      assistant_message example_letter,
      edit_message ''Shorten it'',
      edit_message ''Address a woman'',
      assistant_message ''Dear Madam,'']"
  by (simp add: failed_edit_run_def app_generate_answered app_edit_failed app_edit_answered
      concrete_env new_generator_simps truthy_def example_letter_not_Nil)


section \<open>Revision before any generation\<close>

text \<open>
  Claim C2. On a session with no current letter (\<open>current_loa\<close> is \<open>None\<close>), \<open>edit_loa\<close>
  returns the fixed message \<open>No LOA has been generated yet. Please generate an LOA
  first.\<close>, whatever the edit instruction and whatever the service would answer; it
  sends no request to the service and leaves the session as it was. This holds in
  both source files.
\<close>

theorem edit_loa_without_letter:
  assumes "current_loa self = None"
  shows "app_edit_loa e edit_request self =
           \<lparr>returned = Inr ''No LOA has been generated yet. Please generate an LOA first.'',
            generator = self, sent = None\<rparr>
       \<and> main_edit_loa e edit_request self =
           \<lparr>returned = Inr ''No LOA has been generated yet. Please generate an LOA first.'',
            generator = self, sent = None\<rparr>"
  using assms by (simp add: app_edit_guard main_edit_guard truthy_def no_loa_message_def)

theorem edit_loa_without_letter_witness:
  "current_loa new_generator = None
   \<and> app_edit_loa (answering ''Dear Sir,'') ''Shorten it'' new_generator =
       \<lparr>returned = Inr ''No LOA has been generated yet. Please generate an LOA first.'',
        generator = new_generator, sent = None\<rparr>
   \<and> main_edit_loa (failing ''timeout'') ''Shorten it'' new_generator =
       \<lparr>returned = Inr ''No LOA has been generated yet. Please generate an LOA first.'',
        generator = new_generator, sent = None\<rparr>"
proof -
  have h: "current_loa new_generator = None"
    by (simp add: new_generator_def)
  show ?thesis
    using h edit_loa_without_letter [OF h, of "answering ''Dear Sir,''" "''Shorten it''"]
      edit_loa_without_letter [OF h, of "failing ''timeout''" "''Shorten it''"]
    by simp
qed


section \<open>Failure of the service\<close>

text \<open>
  Claim C1, as the code has it. When the service raises on the request a call sent,
  \<open>generate_loa\<close> and \<open>edit_loa\<close> of \<open>src/app.py\<close> return the text \<open>Error generating LOA: \<close>
  or \<open>Error editing LOA: \<close> followed by the message of the exception; the same methods
  of \<open>src/main.py\<close>, which have no \<open>try\<close>, raise that exception to their caller.
\<close>

theorem service_failure_handling:
  "(sent (app_generate_loa e p self) = Some rq \<and> create e rq = Inl (Exception msg) \<longrightarrow>
      returned (app_generate_loa e p self) = Inr (''Error generating LOA: '' @ msg))
   \<and> (sent (app_edit_loa e r self) = Some rq \<and> create e rq = Inl (Exception msg) \<longrightarrow>
      returned (app_edit_loa e r self) = Inr (''Error editing LOA: '' @ msg))
   \<and> (sent (main_generate_loa e p self) = Some rq \<and> create e rq = Inl (Exception msg) \<longrightarrow>
      returned (main_generate_loa e p self) = Inl (Exception msg))
   \<and> (sent (main_edit_loa e r self) = Some rq \<and> create e rq = Inl (Exception msg) \<longrightarrow>
      returned (main_edit_loa e r self) = Inl (Exception msg))"
proof (intro conjI impI)
  assume "sent (app_generate_loa e p self) = Some rq \<and> create e rq = Inl (Exception msg)"
  then show "returned (app_generate_loa e p self) = Inr (''Error generating LOA: '' @ msg)"
    by (simp add: app_generate_sent app_generate_failed)
next
  assume a: "sent (app_edit_loa e r self) = Some rq \<and> create e rq = Inl (Exception msg)"
  then have t: "truthy (current_loa self)"
    by (cases "truthy (current_loa self)") (simp_all add: app_edit_guard)
  with a show "returned (app_edit_loa e r self) = Inr (''Error editing LOA: '' @ msg)"
    by (simp add: app_edit_sent app_edit_failed)
next
  assume "sent (main_generate_loa e p self) = Some rq \<and> create e rq = Inl (Exception msg)"
  then show "returned (main_generate_loa e p self) = Inl (Exception msg)"
    by (simp add: main_generate_sent main_generate_failed)
next
  assume a: "sent (main_edit_loa e r self) = Some rq \<and> create e rq = Inl (Exception msg)"
  then have t: "truthy (current_loa self)"
    by (cases "truthy (current_loa self)") (simp_all add: main_edit_guard)
  with a show "returned (main_edit_loa e r self) = Inl (Exception msg)"
    by (simp add: main_edit_sent main_edit_failed)
qed

theorem service_failure_handling_witness:
  "sent (app_generate_loa (failing ''timeout'') example_params new_generator) =
     Some \<lparr>req_model = ''gpt-4'',
           req_messages = [system_message create_system_prompt,
                           user_message (app_construct_loa_prompt example_day example_params)]\<rparr>
   \<and> create (failing ''timeout'')
        \<lparr>req_model = ''gpt-4'',
         req_messages = [system_message create_system_prompt,
                         user_message (app_construct_loa_prompt example_day example_params)]\<rparr>
       = Inl (Exception ''timeout'')
   \<and> returned (app_generate_loa (failing ''timeout'') example_params new_generator)
       = Inr ''Error generating LOA: timeout''
   \<and> sent (app_edit_loa (failing ''quota'') ''Shorten it'' example_active) =
       Some \<lparr>req_model = ''gpt-4'',
             req_messages = system_message create_system_prompt #
                            conversation_history example_active @ [edit_message ''Shorten it'']\<rparr>
   \<and> returned (app_edit_loa (failing ''quota'') ''Shorten it'' example_active)
       = Inr ''Error editing LOA: quota''"
proof -
  let ?rq = "\<lparr>req_model = ''gpt-4'',
           req_messages = [system_message create_system_prompt,
                           user_message (app_construct_loa_prompt example_day example_params)]\<rparr>"
  let ?rq' = "\<lparr>req_model = ''gpt-4'',
             req_messages = system_message create_system_prompt #
                            conversation_history example_active @ [edit_message ''Shorten it'']\<rparr>"
  have a: "sent (app_generate_loa (failing ''timeout'') example_params new_generator) = Some ?rq"
    by (simp add: app_generate_sent concrete_env new_generator_simps)
  have b: "create (failing ''timeout'') ?rq = Inl (Exception ''timeout'')"
    by (simp add: concrete_env)
  have c: "sent (app_edit_loa (failing ''quota'') ''Shorten it'' example_active) = Some ?rq'"
    by (simp add: app_edit_sent example_active_truthy) (simp add: example_active_eq)
  have d: "create (failing ''quota'') ?rq' = Inl (Exception ''quota'')"
    by (simp add: concrete_env)
  from a b c d
    service_failure_handling [of "failing ''timeout''" example_params new_generator ?rq "''timeout''"]
    service_failure_handling [of "failing ''quota''" _ example_active ?rq' "''quota''" "''Shorten it''"]
  show ?thesis by simp
qed

text \<open>
  Claim C1 as stated fails for \<open>src/main.py\<close>: with a service that raises \<open>timeout\<close>,
  \<open>generate_loa\<close> on a new session raises the exception instead of returning a text.
\<close>

theorem main_generate_propagates:
  "service_failed (failing ''timeout'')
     (main_generate_loa (failing ''timeout'') example_params new_generator)
   \<and> returned (main_generate_loa (failing ''timeout'') example_params new_generator)
       = Inl (Exception ''timeout'')"
  by (simp add: service_failed_def main_generate_sent concrete_env main_generate_failed)


section \<open>Generation followed by revision\<close>

text \<open>
  Claim C3. On a new session, after a \<open>generate_loa\<close> and then an \<open>edit_loa\<close> that both sent
  a request which the service answered, the transcript holds four Turns with the roles
  request, response, request, response: two requests and two responses, strictly
  interleaved. \<open>current_loa\<close> is the text of the second response Turn, which is also the
  value the revision returns.
\<close>

theorem generate_then_edit:
  fixes e1 e2 :: env and p :: params and edit_request :: string
  defines "first \<equiv> main_generate_loa e1 p new_generator"
  defines "second \<equiv> main_edit_loa e2 edit_request (generator first)"
  defines "transcript \<equiv> conversation_history (generator second)"
  assumes "succeeded e1 first" and "succeeded e2 second"
  shows "roles transcript = [''user'', ''assistant'', ''user'', ''assistant'']
       \<and> requests transcript = 2 \<and> responses transcript = 2
       \<and> strictly_interleaved (roles transcript)
       \<and> current_loa (generator second) = Some (content (transcript ! 3))
       \<and> returned second = Inr (content (transcript ! 3))"
proof -
  obtain t1 where g: "generator first =
      new_generator\<lparr>conversation_history :=
          [user_message (main_construct_loa_prompt (today e1) p), assistant_message t1],
        current_loa := Some t1\<rparr>"
    using main_generate_succeeded assms(4) unfolding first_def by blast
  obtain t2 where r: "returned second = Inr t2" and s: "generator second =
      (generator first)\<lparr>conversation_history :=
          conversation_history (generator first) @ [edit_message edit_request, assistant_message t2],
        current_loa := Some t2\<rparr>"
    using main_edit_succeeded assms(5) unfolding second_def by blast
  have h: "transcript =
      [user_message (main_construct_loa_prompt (today e1) p), assistant_message t1,
       edit_message edit_request, assistant_message t2]"
    unfolding transcript_def by (simp add: s g)
  show ?thesis
    by (simp add: h r s roles_def requests_def responses_def roles_simps)
qed

theorem generate_then_edit_witness:
  "succeeded (answering ''Dear Sir,'') (main_generate_loa (answering ''Dear Sir,'') example_params new_generator)
   \<and> succeeded (answering ''Dear Madam,'')
        (main_edit_loa (answering ''Dear Madam,'') ''Address a woman''
           (generator (main_generate_loa (answering ''Dear Sir,'') example_params new_generator)))
   \<and> roles (conversation_history (generator
        (main_edit_loa (answering ''Dear Madam,'') ''Address a woman''
           (generator (main_generate_loa (answering ''Dear Sir,'') example_params new_generator)))))
      = [''user'', ''assistant'', ''user'', ''assistant'']
   \<and> current_loa (generator
        (main_edit_loa (answering ''Dear Madam,'') ''Address a woman''
           (generator (main_generate_loa (answering ''Dear Sir,'') example_params new_generator))))
      = Some ''Dear Madam,''"
proof -
  have g: "main_generate_loa (answering ''Dear Sir,'') example_params new_generator =
      \<lparr>returned = Inr ''Dear Sir,'',
       generator = new_generator\<lparr>conversation_history :=
                         [user_message (main_construct_loa_prompt (today (answering ''Dear Sir,'')) example_params),
                          assistant_message ''Dear Sir,''],
                       current_loa := Some ''Dear Sir,''\<rparr>,
       sent = Some \<lparr>req_model = model new_generator,
            req_messages = [system_message create_system_prompt,
                            user_message (main_construct_loa_prompt (today (answering ''Dear Sir,'')) example_params)] @
                           conversation_history new_generator\<rparr>\<rparr>"
    by (rule main_generate_answered) (simp add: concrete_env)
  have s1: "succeeded (answering ''Dear Sir,'')
      (main_generate_loa (answering ''Dear Sir,'') example_params new_generator)"
    by (simp add: succeeded_def main_generate_sent concrete_env)
  have s2: "succeeded (answering ''Dear Madam,'')
        (main_edit_loa (answering ''Dear Madam,'') ''Address a woman''
           (generator (main_generate_loa (answering ''Dear Sir,'') example_params new_generator)))"
    by (simp add: succeeded_def g main_edit_sent truthy_def concrete_env)
  from generate_then_edit [OF s1 s2] s1 s2 show ?thesis
    by (simp add: g main_edit_answered truthy_def concrete_env roles_simps)
qed


section \<open>A revision whose service call fails\<close>

lemma service_failed_app_edit:
  "service_failed e (app_edit_loa e r self) \<Longrightarrow> truthy (current_loa self)"
  by (cases "truthy (current_loa self)") (simp_all add: app_edit_guard service_failed_def)

lemma isl_Inl: "isl x \<Longrightarrow> \<exists>ex. x = Inl ex"
  by (cases x) simp_all

text \<open>
  Claim C10, as the code has it. When the service raises on the request that \<open>edit_loa\<close>
  of \<open>src/app.py\<close> sent (which it only sends on a session with a current letter),
  \<open>current_loa\<close> is unchanged and the transcript is the old one followed by the edit
  request: one request Turn more, the same number of response Turns. So a transcript
  with as many requests as responses before the call has one more request Turn than
  response Turns after it.
\<close>

theorem failed_edit_keeps_request:
  assumes "service_failed e (app_edit_loa e edit_request self)"
  shows "current_loa (generator (app_edit_loa e edit_request self)) = current_loa self
       \<and> conversation_history (generator (app_edit_loa e edit_request self)) =
           conversation_history self @ [edit_message edit_request]
       \<and> requests (conversation_history (generator (app_edit_loa e edit_request self))) =
           requests (conversation_history self) + 1
       \<and> responses (conversation_history (generator (app_edit_loa e edit_request self))) =
           responses (conversation_history self)
       \<and> (requests (conversation_history self) = responses (conversation_history self) \<longrightarrow>
            requests (conversation_history (generator (app_edit_loa e edit_request self))) =
              responses (conversation_history (generator (app_edit_loa e edit_request self))) + 1)"
proof -
  have tr: "truthy (current_loa self)"
    using assms by (rule service_failed_app_edit)
  with assms obtain ex where
    "create e \<lparr>req_model = model self,
            req_messages = system_message create_system_prompt #
                           conversation_history self @ [edit_message edit_request]\<rparr> = Inl ex"
    using isl_Inl by (fastforce simp: service_failed_def app_edit_sent)
  then obtain msg where
    "create e \<lparr>req_model = model self,
            req_messages = system_message create_system_prompt #
                           conversation_history self @ [edit_message edit_request]\<rparr> =
       Inl (Exception msg)"
    by (cases ex) simp
  with tr have "app_edit_loa e edit_request self =
     \<lparr>returned = Inr (''Error editing LOA: '' @ msg),
      generator = self\<lparr>conversation_history := conversation_history self @ [edit_message edit_request]\<rparr>,
      sent = Some \<lparr>req_model = model self,
            req_messages = system_message create_system_prompt #
                           conversation_history self @ [edit_message edit_request]\<rparr>\<rparr>"
    by (rule app_edit_failed)
  then show ?thesis
    by (simp add: requests_def responses_def roles_simps)
qed

theorem failed_edit_keeps_request_witness:
  "service_failed (failing ''timeout'') (app_edit_loa (failing ''timeout'') ''Shorten it'' example_active)
   \<and> current_loa (generator (app_edit_loa (failing ''timeout'') ''Shorten it'' example_active))
       = Some example_letter
   \<and> conversation_history (generator (app_edit_loa (failing ''timeout'') ''Shorten it'' example_active))
       = [user_message (app_construct_loa_prompt example_day example_params),
          assistant_message example_letter, edit_message ''Shorten it'']
   \<and> requests (conversation_history
        (generator (app_edit_loa (failing ''timeout'') ''Shorten it'' example_active))) = 2
   \<and> responses (conversation_history
        (generator (app_edit_loa (failing ''timeout'') ''Shorten it'' example_active))) = 1"
proof -
  have f: "service_failed (failing ''timeout'')
      (app_edit_loa (failing ''timeout'') ''Shorten it'' example_active)"
    by (simp add: service_failed_def app_edit_sent example_active_truthy concrete_env)
  from f failed_edit_keeps_request [OF f] show ?thesis
    by (simp add: example_active_eq requests_def responses_def roles_simps)
qed

text \<open>
  Claim C10 as stated fails where it counts the Turns: on the active session left by
  one failed revision, a second failed revision leaves three request Turns and one
  response Turn, two more requests than responses and not one.
\<close>

theorem second_failed_edit_two_requests:
  "current_loa example_dangling = Some example_letter
   \<and> service_failed (failing ''quota'') (app_edit_loa (failing ''quota'') ''Add a clause'' example_dangling)
   \<and> requests (conversation_history
        (generator (app_edit_loa (failing ''quota'') ''Add a clause'' example_dangling))) = 3
   \<and> responses (conversation_history
        (generator (app_edit_loa (failing ''quota'') ''Add a clause'' example_dangling))) = 1"
proof -
  have t: "truthy (current_loa example_dangling)"
    by (simp add: example_dangling_eq truthy_def example_letter_not_Nil)
  have e: "app_edit_loa (failing ''quota'') ''Add a clause'' example_dangling =
     \<lparr>returned = Inr (''Error editing LOA: '' @ ''quota''),
      generator = example_dangling\<lparr>conversation_history :=
         conversation_history example_dangling @ [edit_message ''Add a clause'']\<rparr>,
      sent = Some \<lparr>req_model = model example_dangling,
            req_messages = system_message create_system_prompt #
                           conversation_history example_dangling @ [edit_message ''Add a clause'']\<rparr>\<rparr>"
    using t by (rule app_edit_failed) (simp add: concrete_env)
  show ?thesis
    by (simp add: e service_failed_def concrete_env)
       (simp add: example_dangling_eq requests_def responses_def roles_simps)
qed


section \<open>The order of the transcript in every reachable state\<close>

lemma rbr_append_user:
  "request_before_response rs \<Longrightarrow> request_before_response (rs @ [''user''])"
  by (induction rs rule: request_before_response.induct) (auto split: if_splits)

lemma rbr_append_pair:
  "request_before_response rs \<Longrightarrow> request_before_response (rs @ [''user'', ''assistant''])"
  by (induction rs rule: request_before_response.induct) (auto split: if_splits)

lemma rbr_count:
  "request_before_response rs \<Longrightarrow>
   length (filter (\<lambda>r. r = ''assistant'') rs) \<le> length (filter (\<lambda>r. r = ''user'') rs)"
  by (induction rs rule: request_before_response.induct) (auto split: if_splits)

lemma si_append_pair:
  "strictly_interleaved rs \<Longrightarrow> strictly_interleaved (rs @ [''user'', ''assistant''])"
  by (induction rs rule: strictly_interleaved.induct) auto

lemma count_roles:
  "requests h = length (filter (\<lambda>r. r = ''user'') (roles h))"
  "responses h = length (filter (\<lambda>r. r = ''assistant'') (roles h))"
  by (simp_all add: requests_def responses_def roles_def filter_map comp_def)

lemma app_generate_cases:
  "generator (app_generate_loa e p self) = self \<and> service_failed e (app_generate_loa e p self)
   \<or> (\<exists>t. generator (app_generate_loa e p self) =
          self\<lparr>conversation_history :=
                 [user_message (app_construct_loa_prompt (today e) p), assistant_message t],
               current_loa := Some t\<rparr>)"
proof (cases "create e \<lparr>req_model = model self,
            req_messages = [system_message create_system_prompt,
                            user_message (app_construct_loa_prompt (today e) p)] @
                           conversation_history self\<rparr>")
  case (Inl ex)
  then show ?thesis
    by (cases ex) (simp add: app_generate_failed service_failed_def)
next
  case (Inr t)
  then have "generator (app_generate_loa e p self) =
          self\<lparr>conversation_history :=
                 [user_message (app_construct_loa_prompt (today e) p), assistant_message t],
               current_loa := Some t\<rparr>"
    by (simp add: app_generate_answered)
  then show ?thesis by blast
qed

lemma app_edit_cases:
  "generator (app_edit_loa e r self) = self \<and> \<not> service_failed e (app_edit_loa e r self)
   \<or> generator (app_edit_loa e r self) =
        self\<lparr>conversation_history := conversation_history self @ [edit_message r]\<rparr>
      \<and> service_failed e (app_edit_loa e r self)
   \<or> (\<exists>t. generator (app_edit_loa e r self) =
          self\<lparr>conversation_history :=
                 conversation_history self @ [edit_message r, assistant_message t],
               current_loa := Some t\<rparr>)"
proof (cases "truthy (current_loa self)")
  case False
  then show ?thesis
    by (simp add: app_edit_guard service_failed_def)
next
  case True
  show ?thesis
  proof (cases "create e \<lparr>req_model = model self,
            req_messages = system_message create_system_prompt #
                           conversation_history self @ [edit_message r]\<rparr>")
    case (Inl ex)
    with True show ?thesis
      by (cases ex) (simp add: app_edit_failed service_failed_def)
  next
    case (Inr t)
    with True have "generator (app_edit_loa e r self) =
          self\<lparr>conversation_history :=
                 conversation_history self @ [edit_message r, assistant_message t],
               current_loa := Some t\<rparr>"
      by (simp add: app_edit_answered)
    then show ?thesis by blast
  qed
qed

lemma roles_append: "roles (h @ h') = roles h @ roles h'"
  by (simp add: roles_def)

lemma roles_turns:
  "roles [user_message c, assistant_message t] = [''user'', ''assistant'']"
  "roles [edit_message r, assistant_message t] = [''user'', ''assistant'']"
  "roles [edit_message r] = [''user'']"
  by (simp_all add: roles_def roles_simps)

lemma app_call_rbr:
  assumes "request_before_response (roles (conversation_history self))"
  shows "request_before_response (roles (conversation_history (generator (app_call e c self))))"
proof (cases c)
  case (Generate p)
  with assms app_generate_cases [of e p self] show ?thesis
    by (auto simp: roles_turns)
next
  case (Edit r)
  with assms app_edit_cases [of e r self] show ?thesis
    by (auto simp: roles_append roles_turns rbr_append_user rbr_append_pair)
qed

lemma app_run_rbr:
  "request_before_response (roles (conversation_history self)) \<Longrightarrow>
   request_before_response (roles (conversation_history (app_run self calls)))"
proof (induction calls arbitrary: self)
  case Nil
  then show ?case by simp
next
  case (Cons ec calls)
  obtain e c where ec: "ec = (e, c)" by (cases ec)
  from Cons.prems have "request_before_response
      (roles (conversation_history (generator (app_call e c self))))"
    by (rule app_call_rbr)
  then show ?case
    unfolding ec by (simp add: Cons.IH)
qed

lemma si_snoc: "strictly_interleaved (rs @ [r]) \<Longrightarrow> r = ''assistant''"
  by (induction rs rule: strictly_interleaved.induct) auto

lemma si_snoc_user: "\<not> strictly_interleaved (rs @ [''user''])"
  using si_snoc [of rs "''user''"] by auto

lemma si_append_pair_iff:
  "strictly_interleaved (rs @ [''user'', ''assistant'']) \<longleftrightarrow> strictly_interleaved rs"
  by (induction rs rule: strictly_interleaved.induct) auto

lemma app_generate_outcomes:
  "generator (app_generate_loa e p self) = self \<and> \<not> succeeded e (app_generate_loa e p self)
   \<or> (\<exists>t. generator (app_generate_loa e p self) =
          self\<lparr>conversation_history :=
                 [user_message (app_construct_loa_prompt (today e) p), assistant_message t],
               current_loa := Some t\<rparr>
        \<and> succeeded e (app_generate_loa e p self))"
proof (cases "create e \<lparr>req_model = model self,
            req_messages = [system_message create_system_prompt,
                            user_message (app_construct_loa_prompt (today e) p)] @
                           conversation_history self\<rparr>")
  case (Inl ex)
  then show ?thesis
    by (cases ex) (simp add: app_generate_failed succeeded_def)
next
  case (Inr t)
  then have "generator (app_generate_loa e p self) =
          self\<lparr>conversation_history :=
                 [user_message (app_construct_loa_prompt (today e) p), assistant_message t],
               current_loa := Some t\<rparr>
        \<and> succeeded e (app_generate_loa e p self)"
    by (simp add: app_generate_answered succeeded_def)
  then show ?thesis by blast
qed

lemma app_edit_outcomes:
  "generator (app_edit_loa e r self) = self \<and> \<not> service_failed e (app_edit_loa e r self)
   \<or> generator (app_edit_loa e r self) =
        self\<lparr>conversation_history := conversation_history self @ [edit_message r]\<rparr>
      \<and> service_failed e (app_edit_loa e r self)
   \<or> (\<exists>t. generator (app_edit_loa e r self) =
          self\<lparr>conversation_history :=
                 conversation_history self @ [edit_message r, assistant_message t],
               current_loa := Some t\<rparr>
        \<and> \<not> service_failed e (app_edit_loa e r self))"
proof (cases "truthy (current_loa self)")
  case False
  then show ?thesis
    by (simp add: app_edit_guard service_failed_def)
next
  case True
  show ?thesis
  proof (cases "create e \<lparr>req_model = model self,
            req_messages = system_message create_system_prompt #
                           conversation_history self @ [edit_message r]\<rparr>")
    case (Inl ex)
    with True show ?thesis
      by (cases ex) (simp add: app_edit_failed service_failed_def)
  next
    case (Inr t)
    with True have "generator (app_edit_loa e r self) =
          self\<lparr>conversation_history :=
                 conversation_history self @ [edit_message r, assistant_message t],
               current_loa := Some t\<rparr>
        \<and> \<not> service_failed e (app_edit_loa e r self)"
      by (simp add: app_edit_answered service_failed_def)
    then show ?thesis by blast
  qed
qed

lemma app_run_interleaved:
  "(strictly_interleaved (roles (conversation_history self)) \<longleftrightarrow> \<not> b) \<Longrightarrow>
   (strictly_interleaved (roles (conversation_history (app_run self calls)))
      \<longleftrightarrow> \<not> app_edit_pending b self calls)"
proof (induction calls arbitrary: self b)
  case Nil
  then show ?case by simp
next
  case (Cons ec calls)
  obtain e c where ec: "ec = (e, c)" by (cases ec)
  show ?case
  proof (cases c)
    case (Generate p)
    have "strictly_interleaved (roles (conversation_history
            (generator (app_generate_loa e p self))))
        \<longleftrightarrow> \<not> (b \<and> \<not> succeeded e (app_generate_loa e p self))"
      using Cons.prems app_generate_outcomes [of e p self]
      by (auto simp: roles_turns)
    from Cons.IH [OF this] show ?thesis
      by (simp add: ec Generate)
  next
    case (Edit r)
    have "strictly_interleaved (roles (conversation_history
            (generator (app_edit_loa e r self))))
        \<longleftrightarrow> \<not> (b \<or> service_failed e (app_edit_loa e r self))"
      using Cons.prems app_edit_outcomes [of e r self]
      by (auto simp: roles_append roles_turns si_snoc_user si_append_pair_iff)
    from Cons.IH [OF this] show ?thesis
      by (simp add: ec Edit)
  qed
qed

lemma app_run_failed_generate_run:
  "conversation_history (app_run new_generator failed_generate_run) =
     [user_message (app_construct_loa_prompt example_day example_params),
      assistant_message example_letter,
      edit_message ''Address a woman'',
      assistant_message ''Dear Madam,'']"
  by (simp add: failed_generate_run_def app_generate_failed app_generate_answered
      app_edit_answered concrete_env new_generator_simps truthy_def example_letter_not_Nil)

lemma app_run_recovered_run:
  "conversation_history (app_run new_generator recovered_run) =
     [user_message (app_construct_loa_prompt example_day example_params),
      assistant_message example_letter]"
  by (simp add: recovered_run_def failed_edit_run_def app_generate_answered app_edit_failed
      app_edit_answered concrete_env new_generator_simps truthy_def example_letter_not_Nil)

text \<open>
  Claim C4, as the code has it. After any sequence of calls of \<open>src/app.py\<close> on a new
  session, failed ones included, every Turn of the transcript is a request or a
  response, every response Turn comes directly after a request Turn, and there are
  never more response Turns than request Turns. The transcript is strictly
  interleaved exactly when no revision has failed since the last successful
  generation: a failed revision leaves its request Turn behind, a failed generation
  leaves the transcript as it was, and a successful generation starts it afresh.
\<close>

theorem reachable_transcript_order:
  "request_before_response (roles (conversation_history (app_run new_generator calls)))
   \<and> responses (conversation_history (app_run new_generator calls))
       \<le> requests (conversation_history (app_run new_generator calls))
   \<and> (strictly_interleaved (roles (conversation_history (app_run new_generator calls)))
        \<longleftrightarrow> \<not> app_edit_pending False new_generator calls)"
proof -
  have start: "roles (conversation_history new_generator) = []"
    by (simp add: new_generator_simps roles_def)
  have a: "request_before_response (roles (conversation_history (app_run new_generator calls)))"
    by (rule app_run_rbr) (simp add: start)
  have b: "strictly_interleaved (roles (conversation_history (app_run new_generator calls)))
        \<longleftrightarrow> \<not> app_edit_pending False new_generator calls"
    by (rule app_run_interleaved) (simp add: start)
  from a b rbr_count [OF a] show ?thesis
    by (simp add: count_roles)
qed

theorem reachable_transcript_order_witness:
  "request_before_response (roles (conversation_history (app_run new_generator failed_edit_run)))
   \<and> responses (conversation_history (app_run new_generator failed_edit_run)) = 2
   \<and> requests (conversation_history (app_run new_generator failed_edit_run)) = 3
   \<and> app_edit_pending False new_generator failed_edit_run
   \<and> \<not> strictly_interleaved (roles (conversation_history (app_run new_generator failed_edit_run)))
   \<and> \<not> app_edit_pending False new_generator failed_generate_run
   \<and> strictly_interleaved (roles (conversation_history
        (app_run new_generator failed_generate_run)))
   \<and> \<not> app_edit_pending False new_generator recovered_run
   \<and> strictly_interleaved (roles (conversation_history (app_run new_generator recovered_run)))"
proof -
  have a: "roles (conversation_history (app_run new_generator failed_edit_run)) =
      [''user'', ''assistant'', ''user'', ''user'', ''assistant'']"
    by (simp add: app_run_failed_edit_run roles_def roles_simps)
  have b: "roles (conversation_history (app_run new_generator failed_generate_run)) =
      [''user'', ''assistant'', ''user'', ''assistant'']"
    by (simp add: app_run_failed_generate_run roles_def roles_simps)
  have c: "roles (conversation_history (app_run new_generator recovered_run)) =
      [''user'', ''assistant'']"
    by (simp add: app_run_recovered_run roles_def roles_simps)
  have n: "responses (conversation_history (app_run new_generator failed_edit_run)) = 2
     \<and> requests (conversation_history (app_run new_generator failed_edit_run)) = 3"
    by (simp add: app_run_failed_edit_run requests_def responses_def roles_simps)
  from a b c n reachable_transcript_order [of failed_edit_run]
    reachable_transcript_order [of failed_generate_run]
    reachable_transcript_order [of recovered_run]
  show ?thesis
    by simp
qed

text \<open>
  Claim C4 as stated fails: after a generation, a revision whose service call fails
  and a revision that is answered, two request Turns follow each other.
\<close>

theorem failed_edit_breaks_interleaving:
  "roles (conversation_history (app_run new_generator failed_edit_run)) =
     [''user'', ''assistant'', ''user'', ''user'', ''assistant'']
   \<and> \<not> strictly_interleaved (roles (conversation_history (app_run new_generator failed_edit_run)))"
  by (simp add: app_run_failed_edit_run roles_def roles_simps)


section \<open>The order of the Turns over successful calls\<close>

lemma main_generate_succeeded_answer:
  assumes "succeeded e (main_generate_loa e p self)"
  shows "sent (main_generate_loa e p self) = Some (generate_request e p self)
       \<and> (\<exists>t. create e (generate_request e p self) = Inr t
             \<and> returned (main_generate_loa e p self) = Inr t
             \<and> conversation_history (generator (main_generate_loa e p self)) =
                 [user_message (main_construct_loa_prompt (today e) p), assistant_message t])"
proof -
  have s: "sent (main_generate_loa e p self) = Some (generate_request e p self)"
    by (simp add: main_generate_sent generate_request_def)
  with assms obtain t where t: "create e (generate_request e p self) = Inr t"
    using not_isl_Inr by (fastforce simp: succeeded_def)
  then have "returned (main_generate_loa e p self) = Inr t
      \<and> conversation_history (generator (main_generate_loa e p self)) =
          [user_message (main_construct_loa_prompt (today e) p), assistant_message t]"
    by (simp add: generate_request_def main_generate_answered)
  with s t show ?thesis by blast
qed

lemma main_edit_succeeded_answer:
  assumes "succeeded e (main_edit_loa e r self)"
  shows "sent (main_edit_loa e r self) = Some (edit_request_sent r self)
       \<and> (\<exists>t. create e (edit_request_sent r self) = Inr t
             \<and> returned (main_edit_loa e r self) = Inr t
             \<and> conversation_history (generator (main_edit_loa e r self)) =
                 conversation_history self @ [edit_message r, assistant_message t])"
proof -
  have tr: "truthy (current_loa self)"
    using assms by (rule succeeded_main_edit)
  then have s: "sent (main_edit_loa e r self) = Some (edit_request_sent r self)"
    by (simp add: main_edit_sent edit_request_sent_def)
  with assms obtain t where t: "create e (edit_request_sent r self) = Inr t"
    using not_isl_Inr by (fastforce simp: succeeded_def)
  with tr have "returned (main_edit_loa e r self) = Inr t
      \<and> conversation_history (generator (main_edit_loa e r self)) =
          conversation_history self @ [edit_message r, assistant_message t]"
    by (simp add: edit_request_sent_def main_edit_answered)
  with s t show ?thesis by blast
qed

lemma main_edits_append:
  "main_all_succeeded self (edits rs) \<Longrightarrow>
   \<exists>ts. length ts = length rs
      \<and> conversation_history (main_run self (edits rs)) =
          conversation_history self @ revision_turns (zip (map snd rs) ts)"
proof (induction rs arbitrary: self)
  case Nil
  then show ?case by (simp add: edits_def revision_turns_def)
next
  case (Cons er rs)
  obtain e r where er: "er = (e, r)" by (cases er)
  from Cons.prems have s: "succeeded e (main_edit_loa e r self)"
    and rest: "main_all_succeeded (generator (main_edit_loa e r self)) (edits rs)"
    unfolding er by (simp_all add: edits_def)
  from main_edit_succeeded_answer [OF s] obtain t where
    g: "conversation_history (generator (main_edit_loa e r self)) =
          conversation_history self @ [edit_message r, assistant_message t]"
    by blast
  from Cons.IH [OF rest] obtain ts where l: "length ts = length rs" and
    h: "conversation_history (main_run (generator (main_edit_loa e r self)) (edits rs)) =
       conversation_history (generator (main_edit_loa e r self)) @
         revision_turns (zip (map snd rs) ts)"
    by blast
  have "length (t # ts) = length (er # rs)
     \<and> conversation_history (main_run self (edits (er # rs))) =
       conversation_history self @ revision_turns (zip (map snd (er # rs)) (t # ts))"
    using l h g unfolding er by (simp add: edits_def revision_turns_def)
  then show ?case by blast
qed

lemma pick_first: "A \<and> B \<and> C \<Longrightarrow> A"
  by blast

lemma pick_second: "A \<and> B \<and> C \<Longrightarrow> B"
  by blast

lemma pick_third: "A \<and> B \<and> C \<Longrightarrow> C"
  by blast

lemma main_run_two_generations:
  "conversation_history (main_run new_generator two_generations) =
     [user_message (main_construct_loa_prompt example_day example_params),
      assistant_message ''Dear Madam,'']"
  by (simp add: two_generations_def main_generate_answered concrete_env)

lemma assistant_message_inject:
  "assistant_message a = assistant_message b \<longleftrightarrow> a = b"
  "assistant_message a \<noteq> user_message b"
  by (simp_all add: assistant_message_def user_message_def)

text \<open>
  Claim C5, as the code has it (\<open>src/main.py\<close>). A successful \<open>generate_loa\<close> sends the
  system directive, its prompt and the whole transcript to the service, and replaces
  the transcript by its own request Turn and the service's answer as response Turn. A
  successful \<open>edit_loa\<close> sends the system directive, the whole transcript and its edit
  request, and appends to the transcript, otherwise unchanged, its request Turn and
  then the service's answer as response Turn. So after a generation and any number of
  successful revisions the transcript is the Turn pair of that generation followed by
  the Turn pairs of the revisions, in call order.
\<close>

theorem transcript_in_call_order:
  fixes e :: env and p :: params and r :: string and self :: LOAGenerator
    and rs :: "(env \<times> string) list"
  defines "generate_sent \<equiv>
     \<lparr>req_model = model self,
      req_messages = [system_message create_system_prompt,
                      user_message (main_construct_loa_prompt (today e) p)] @
                     conversation_history self\<rparr>"
  defines "edit_sent \<equiv>
     \<lparr>req_model = model self,
      req_messages = [system_message create_system_prompt] @ conversation_history self @
                     [edit_message r]\<rparr>"
  shows
  "(succeeded e (main_generate_loa e p self) \<longrightarrow>
      sent (main_generate_loa e p self) = Some generate_sent
      \<and> (\<exists>t. create e generate_sent = Inr t
            \<and> returned (main_generate_loa e p self) = Inr t
            \<and> conversation_history (generator (main_generate_loa e p self)) =
                [user_message (main_construct_loa_prompt (today e) p), assistant_message t]))
   \<and> (succeeded e (main_edit_loa e r self) \<longrightarrow>
      sent (main_edit_loa e r self) = Some edit_sent
      \<and> (\<exists>t. create e edit_sent = Inr t
            \<and> returned (main_edit_loa e r self) = Inr t
            \<and> conversation_history (generator (main_edit_loa e r self)) =
                conversation_history self @ [edit_message r, assistant_message t]))
   \<and> (main_all_succeeded self ((e, Generate p) # edits rs) \<longrightarrow>
      (\<exists>t ts. create e generate_sent = Inr t
            \<and> length ts = length rs
            \<and> conversation_history (main_run self ((e, Generate p) # edits rs)) =
                [user_message (main_construct_loa_prompt (today e) p), assistant_message t] @
                concat (map (\<lambda>(r', t'). [edit_message r', assistant_message t'])
                          (zip (map snd rs) ts))))"
proof (intro conjI impI)
  have gs: "generate_sent = generate_request e p self"
    by (simp add: generate_sent_def generate_request_def)
  have es: "edit_sent = edit_request_sent r self"
    by (simp add: edit_sent_def edit_request_sent_def)
  {
    assume "succeeded e (main_generate_loa e p self)"
    from main_generate_succeeded_answer [OF this]
    show "sent (main_generate_loa e p self) = Some generate_sent"
      and "\<exists>t. create e generate_sent = Inr t
            \<and> returned (main_generate_loa e p self) = Inr t
            \<and> conversation_history (generator (main_generate_loa e p self)) =
                [user_message (main_construct_loa_prompt (today e) p), assistant_message t]"
      unfolding gs by blast+
  }
  {
    assume "succeeded e (main_edit_loa e r self)"
    from main_edit_succeeded_answer [OF this]
    show "sent (main_edit_loa e r self) = Some edit_sent"
      and "\<exists>t. create e edit_sent = Inr t
            \<and> returned (main_edit_loa e r self) = Inr t
            \<and> conversation_history (generator (main_edit_loa e r self)) =
                conversation_history self @ [edit_message r, assistant_message t]"
      unfolding es by blast+
  }
  assume a: "main_all_succeeded self ((e, Generate p) # edits rs)"
  then have s: "succeeded e (main_generate_loa e p self)"
    and rest: "main_all_succeeded (generator (main_generate_loa e p self)) (edits rs)"
    by simp_all
  from main_generate_succeeded_answer [OF s] obtain t where
    t: "create e generate_sent = Inr t" and
    g: "conversation_history (generator (main_generate_loa e p self)) =
          [user_message (main_construct_loa_prompt (today e) p), assistant_message t]"
    unfolding gs by blast
  from main_edits_append [OF rest] obtain ts where l: "length ts = length rs" and
    "conversation_history (main_run (generator (main_generate_loa e p self)) (edits rs)) =
       conversation_history (generator (main_generate_loa e p self)) @
         revision_turns (zip (map snd rs) ts)"
    by blast
  then have "conversation_history (main_run self ((e, Generate p) # edits rs)) =
             [user_message (main_construct_loa_prompt (today e) p), assistant_message t] @
             concat (map (\<lambda>(r', t'). [edit_message r', assistant_message t'])
                          (zip (map snd rs) ts))"
    by (simp add: g revision_turns_def)
  with t l show "\<exists>t ts. create e generate_sent = Inr t
            \<and> length ts = length rs
            \<and> conversation_history (main_run self ((e, Generate p) # edits rs)) =
                [user_message (main_construct_loa_prompt (today e) p), assistant_message t] @
                concat (map (\<lambda>(r', t'). [edit_message r', assistant_message t'])
                          (zip (map snd rs) ts))"
    by blast
qed

theorem transcript_in_call_order_witness:
  "succeeded (answering example_letter)
     (main_generate_loa (answering example_letter) example_params example_active)
   \<and> sent (main_generate_loa (answering example_letter) example_params example_active) =
       Some \<lparr>req_model = ''gpt-4'',
             req_messages = [system_message create_system_prompt,
                             user_message (main_construct_loa_prompt example_day example_params)] @
                            conversation_history example_active\<rparr>
   \<and> conversation_history (generator
        (main_generate_loa (answering example_letter) example_params example_active)) =
       [user_message (main_construct_loa_prompt example_day example_params),
        assistant_message example_letter]
   \<and> succeeded (answering ''Dear Madam,'')
       (main_edit_loa (answering ''Dear Madam,'') ''Address a woman'' example_active)
   \<and> conversation_history (generator
        (main_edit_loa (answering ''Dear Madam,'') ''Address a woman'' example_active)) =
       conversation_history example_active @
         [edit_message ''Address a woman'', assistant_message ''Dear Madam,'']
   \<and> main_all_succeeded new_generator
        ((answering example_letter, Generate example_params) # edits example_revisions)
   \<and> conversation_history (main_run new_generator
        ((answering example_letter, Generate example_params) # edits example_revisions)) =
       [user_message (main_construct_loa_prompt example_day example_params),
        assistant_message example_letter,
        edit_message ''Address a woman'', assistant_message ''Dear Madam,'',
        edit_message ''Address a man'', assistant_message ''Dear Sir,'']"
proof -
  let ?g = "main_generate_loa (answering example_letter) example_params example_active"
  let ?r = "main_edit_loa (answering ''Dear Madam,'') ''Address a woman'' example_active"
  let ?calls = "(answering example_letter, Generate example_params) # edits example_revisions"
  have a: "succeeded (answering example_letter) ?g"
    by (simp add: succeeded_def main_generate_sent concrete_env)
  have b: "succeeded (answering ''Dear Madam,'') ?r"
    by (simp add: succeeded_def main_edit_sent example_active_truthy concrete_env)
  have c: "main_all_succeeded new_generator ?calls"
    by (simp add: edits_def example_revisions_def succeeded_def main_generate_sent
        main_generate_answered main_edit_sent main_edit_answered truthy_def
        example_letter_not_Nil concrete_env)
  have m: "model example_active = ''gpt-4''"
    by (simp add: example_active_eq)
  from pick_first [OF transcript_in_call_order
      [where e = "answering example_letter" and p = example_params and self = example_active],
      THEN mp, OF a]
  obtain t where s: "sent ?g =
       Some \<lparr>req_model = model example_active,
             req_messages = [system_message create_system_prompt,
                             user_message (main_construct_loa_prompt
                               (today (answering example_letter)) example_params)] @
                            conversation_history example_active\<rparr>"
    and "create (answering example_letter)
       \<lparr>req_model = model example_active,
             req_messages = [system_message create_system_prompt,
                             user_message (main_construct_loa_prompt
                               (today (answering example_letter)) example_params)] @
                            conversation_history example_active\<rparr> = Inr t"
    and "conversation_history (generator ?g) =
       [user_message (main_construct_loa_prompt (today (answering example_letter)) example_params),
        assistant_message t]"
    by blast
  then have s': "sent ?g =
       Some \<lparr>req_model = ''gpt-4'',
             req_messages = [system_message create_system_prompt,
                             user_message (main_construct_loa_prompt example_day example_params)] @
                            conversation_history example_active\<rparr>"
    and a': "conversation_history (generator ?g) =
       [user_message (main_construct_loa_prompt example_day example_params),
        assistant_message example_letter]"
    by (simp_all add: concrete_env m)
  from pick_second [OF transcript_in_call_order
      [where e = "answering ''Dear Madam,''" and r = "''Address a woman''"
         and self = example_active],
      THEN mp, OF b]
  obtain t' where "create (answering ''Dear Madam,'')
       \<lparr>req_model = model example_active,
        req_messages = [system_message create_system_prompt] @ conversation_history example_active @
                     [edit_message ''Address a woman'']\<rparr> = Inr t'"
    and "conversation_history (generator ?r) =
       conversation_history example_active @ [edit_message ''Address a woman'', assistant_message t']"
    by blast
  then have b': "conversation_history (generator ?r) =
       conversation_history example_active @
         [edit_message ''Address a woman'', assistant_message ''Dear Madam,'']"
    by (simp add: concrete_env)
  have c': "conversation_history (main_run new_generator ?calls) =
       [user_message (main_construct_loa_prompt example_day example_params),
        assistant_message example_letter,
        edit_message ''Address a woman'', assistant_message ''Dear Madam,'',
        edit_message ''Address a man'', assistant_message ''Dear Sir,'']"
    by (simp add: edits_def example_revisions_def main_generate_answered main_edit_answered
        truthy_def example_letter_not_Nil concrete_env)
  from a s' a' b b' c c' show ?thesis
    by (intro conjI)
qed

text \<open>
  Claim C5 as stated fails for a second generation on an active session: the response
  Turn of the first generation is in the transcript before the second generation and
  is no longer in it afterwards; the transcript has two Turns, not four.
\<close>

theorem second_generate_drops_turns:
  "main_all_succeeded new_generator two_generations
   \<and> assistant_message example_letter \<in> set (conversation_history
        (main_run new_generator [(answering example_letter, Generate example_params)]))
   \<and> assistant_message example_letter \<notin> set (conversation_history
        (main_run new_generator two_generations))
   \<and> length (conversation_history (main_run new_generator two_generations)) = 2"
proof -
  have ne: "example_letter \<noteq> ''Dear Madam,''"
    by (simp add: example_letter_def)
  show ?thesis
    by (simp add: main_run_two_generations assistant_message_inject ne)
       (simp add: two_generations_def succeeded_def main_generate_sent main_generate_answered
          concrete_env)
qed


section \<open>The layout renderer on the example letter\<close>

text \<open>
  Claim C6. Rendering the nine-line example letter gives nine classified blocks, one
  for each line in order, with the roles reference-or-date, blank, salutation,
  subject, section-header, body, blank, closing, body.
\<close>

theorem render_example_letter:
  "render example_letter =
     [(''Date: 01.01.2025'', ReferenceOrDate), ('''', Blank), (''Dear Sir,'', Salutation),
      (''Subject: Authorization for Hoarding'', Subject), (''Terms:'', SectionHeader),
      (''This letter authorizes installation.'', Body), ('''', Blank),
      (''Yours sincerely,'', Closing), (''J. Doe'', Body)]"
  by code_simp

section \<open>The recipient address block\<close>

lemma truthy_get: "truthy (get p k) \<longleftrightarrow> item p k \<noteq> []"
  by (simp add: truthy_def get_def item_def split: option.splits)

lemma city_pincode_eq:
  "city_pincode p =
     item p ''city'' @ (if item p ''pincode'' = [] then [] else '' - '' @ item p ''pincode'')"
  by (simp add: city_pincode_def truthy_get)

lemma address_parts_eq:
  "address_parts p = filter (\<lambda>s. s \<noteq> []) (address_segments p)"
  by (simp add: address_parts_def address_segments_def truthy_get city_pincode_eq)

lemma split_no_sep: "sep \<notin> set a \<Longrightarrow> split sep a = [a]"
  by (induction a) auto

lemma split_append_sep: "sep \<notin> set a \<Longrightarrow> split sep (a @ sep # b) = a # split sep b"
  by (induction a) auto

lemma split_join:
  "list_all (\<lambda>s. sep \<notin> set s) ps \<Longrightarrow> ps \<noteq> [] \<Longrightarrow> split sep (join [sep] ps) = ps"
  by (induction "[sep]" ps rule: join.induct) (simp_all add: split_no_sep split_append_sep)

text \<open>
  Claim C8. For every parameter set, the address block that the prompt builder of
  \<open>src/main.py\<close> computes is the block of the specification: the non-empty address
  segments joined with single line breaks. When every address field is empty or
  absent, the block is the empty text. When no segment contains a line break itself
  and some segment is non-empty, the lines of the block are exactly the non-empty
  segments in order, so no line of the block is blank.
\<close>

theorem recipient_address_block:
  "recipient_address p = address_block_spec p
   \<and> (\<not> truthy (get p ''company_name'') \<and> \<not> truthy (get p ''address_line1'')
      \<and> \<not> truthy (get p ''address_line2'') \<and> \<not> truthy (get p ''address_line3'')
      \<and> \<not> truthy (get p ''city'') \<and> \<not> truthy (get p ''pincode'')
      \<longrightarrow> recipient_address p = [])
   \<and> (list_all no_line_break (address_segments p)
      \<and> filter (\<lambda>s. s \<noteq> []) (address_segments p) \<noteq> []
      \<longrightarrow> split newline (recipient_address p) = filter (\<lambda>s. s \<noteq> []) (address_segments p))"
proof (intro conjI impI)
  show "recipient_address p = address_block_spec p"
    by (simp add: recipient_address_def address_block_spec_def address_parts_eq)
next
  assume "\<not> truthy (get p ''company_name'') \<and> \<not> truthy (get p ''address_line1'')
      \<and> \<not> truthy (get p ''address_line2'') \<and> \<not> truthy (get p ''address_line3'')
      \<and> \<not> truthy (get p ''city'') \<and> \<not> truthy (get p ''pincode'')"
  then show "recipient_address p = []"
    by (simp add: recipient_address_def address_parts_def city_pincode_def)
next
  assume a: "list_all no_line_break (address_segments p)
      \<and> filter (\<lambda>s. s \<noteq> []) (address_segments p) \<noteq> []"
  then have "list_all (\<lambda>s. newline \<notin> set s) (filter (\<lambda>s. s \<noteq> []) (address_segments p))"
    by (simp add: list_all_iff no_line_break_def)
  with a show "split newline (recipient_address p) = filter (\<lambda>s. s \<noteq> []) (address_segments p)"
    by (simp add: recipient_address_def address_parts_eq split_join)
qed

theorem recipient_address_block_witness:
  "\<not> truthy (get empty_address_params ''company_name'')
   \<and> \<not> truthy (get empty_address_params ''address_line1'')
   \<and> \<not> truthy (get empty_address_params ''address_line2'')
   \<and> \<not> truthy (get empty_address_params ''address_line3'')
   \<and> \<not> truthy (get empty_address_params ''city'')
   \<and> \<not> truthy (get empty_address_params ''pincode'')
   \<and> recipient_address empty_address_params = []
   \<and> list_all no_line_break (address_segments example_params)
   \<and> recipient_address example_params =
       ''Wallop Advertising Private Limited\<newline>Mumbai - 400051''
   \<and> split newline (recipient_address example_params) =
       [''Wallop Advertising Private Limited'', ''Mumbai - 400051'']"
proof -
  have e: "\<not> truthy (get empty_address_params ''company_name'')
   \<and> \<not> truthy (get empty_address_params ''address_line1'')
   \<and> \<not> truthy (get empty_address_params ''address_line2'')
   \<and> \<not> truthy (get empty_address_params ''address_line3'')
   \<and> \<not> truthy (get empty_address_params ''city'')
   \<and> \<not> truthy (get empty_address_params ''pincode'')"
    by (simp add: empty_address_params_def truthy_def get_def)
  have s: "address_segments example_params =
      [''Wallop Advertising Private Limited'', [], [], [], ''Mumbai - 400051'']"
    by (simp add: address_segments_def example_params_def item_def)
  have n: "list_all no_line_break (address_segments example_params)"
    by (simp add: s no_line_break_def newline_def)
  have r: "recipient_address example_params =
       ''Wallop Advertising Private Limited\<newline>Mumbai - 400051''"
    by (simp add: recipient_address_def address_parts_eq s newline_def)
  from e recipient_address_block [of empty_address_params]
  have x: "recipient_address empty_address_params = []"
    by blast
  have "filter (\<lambda>s. s \<noteq> []) (address_segments example_params) =
      [''Wallop Advertising Private Limited'', ''Mumbai - 400051'']"
    by (simp add: s)
  with n recipient_address_block [of example_params, THEN conjunct2, THEN conjunct2]
  have y: "split newline (recipient_address example_params) =
       [''Wallop Advertising Private Limited'', ''Mumbai - 400051'']"
    by simp
  from e x n r y show ?thesis by blast
qed


section \<open>The reference number in the prompt\<close>



section \<open>Classification of lines and building of the document\<close>

lemma flush_refused: "list_ex (element_refused U) (flush bfr) \<longleftrightarrow> list_ex (xml_refused U) bfr"
  by (cases bfr) simp_all

lemma run_elements_refused:
  "list_ex (element_refused U) (run_elements U bfr cs) \<longleftrightarrow>
     list_ex (xml_refused U) bfr \<or> has_refused U cs"
proof (induction cs arbitrary: bfr)
  case Nil
  then show ?case by (simp add: flush_refused has_refused_def)
next
  case (Cons c cs)
  have h: "has_refused U [] = False"
    by (simp add: has_refused_def)
  from Cons [of "[]"] Cons [of "bfr @ [c]"] show ?case
    by (auto simp: flush_refused has_refused_def)
qed

lemma add_run_eq:
  "add_run U line =
     (if has_refused U line then Inl ValueError
      else Inr \<lparr>elements = run_elements U [] line, bold = False\<rparr>)"
  by (simp add: add_run_def run_elements_refused)

lemma has_refused_Nil: "\<not> has_refused U []"
  by (simp add: has_refused_def)

lemma add_paragraph_eq:
  "add_paragraph U r line =
     (if r \<noteq> Blank \<and> has_refused U line then Inl ValueError
      else Inr (block_paragraph U (line, r)))"
  by (simp add: add_paragraph_def add_run_eq block_paragraph_def)

lemma add_paragraphs_eq:
  "add_paragraphs U blocks =
     (if list_ex (\<lambda>b. snd b \<noteq> Blank \<and> has_refused U (fst b)) blocks then Inl ValueError
      else Inr (map (block_paragraph U) blocks))"
  by (induction blocks) (auto simp: add_paragraph_eq)

lemma classify_Blank: "classify U line = Blank \<longleftrightarrow> line = []"
  by (simp add: classify_def)

lemma render_blocks_refused:
  "list_ex (\<lambda>b. snd b \<noteq> Blank \<and> has_refused U (fst b)) (render_blocks U text) \<longleftrightarrow>
   list_ex (\<lambda>b. has_refused U (fst b)) (render_blocks U text)"
proof -
  have "has_refused U l \<Longrightarrow> l \<noteq> []" for l
    using has_refused_Nil [of U] by auto
  then show ?thesis
    by (auto simp: render_blocks_def list_ex_iff classify_Blank)
qed

lemma create_word_document_eq:
  "create_word_document U text =
     (if list_ex (\<lambda>b. has_refused U (fst b)) (render_blocks U text) then Inl ValueError
      else Inr \<lparr>top_margin = 1, bottom_margin = 1, left_margin = 1, right_margin = 1,
               paragraphs = map (block_paragraph U) (render_blocks U text)\<rparr>)"
  by (simp add: create_word_document_def add_paragraphs_eq render_blocks_refused)

lemma classify_roles:
  "(classify U line = Blank \<longleftrightarrow> line = [])
   \<and> (classify U line = ReferenceOrDate \<longleftrightarrow> line \<noteq> [] \<and> is_reference_or_date U line)
   \<and> (classify U line = Salutation \<longleftrightarrow>
        line \<noteq> [] \<and> \<not> is_reference_or_date U line \<and> is_salutation U line)
   \<and> (classify U line = Subject \<longleftrightarrow>
        line \<noteq> [] \<and> \<not> is_reference_or_date U line \<and> \<not> is_salutation U line
        \<and> is_subject U line)
   \<and> (classify U line = Closing \<longleftrightarrow>
        line \<noteq> [] \<and> \<not> is_reference_or_date U line \<and> \<not> is_salutation U line
        \<and> \<not> is_subject U line \<and> is_closing U line)
   \<and> (classify U line = SectionHeader \<longleftrightarrow>
        line \<noteq> [] \<and> \<not> is_reference_or_date U line \<and> \<not> is_salutation U line
        \<and> \<not> is_subject U line \<and> \<not> is_closing U line \<and> is_section_header U line)
   \<and> (classify U line = Body \<longleftrightarrow>
        line \<noteq> [] \<and> \<not> is_reference_or_date U line \<and> \<not> is_salutation U line
        \<and> \<not> is_subject U line \<and> \<not> is_closing U line \<and> \<not> is_section_header U line)"
  by (simp add: classify_def)

lemma conditions_by_prefix:
  "is_reference_or_date U line \<longleftrightarrow>
     prefix (lit U ''Date:'') line \<or> prefix (lit U ''ref:'') (lower U line)
     \<or> prefix (lit U ''reference:'') (lower U line)"
  "is_salutation U line \<longleftrightarrow>
     prefix (lit U ''dear '') (lower U line) \<or> prefix (lit U ''to whom'') (lower U line)
     \<or> prefix (lit U ''sir'') (lower U line) \<or> prefix (lit U ''madam'') (lower U line)"
  "is_subject U line \<longleftrightarrow> prefix (lit U ''subject:'') (lower U line)"
  "is_closing U line \<longleftrightarrow>
     prefix (lit U ''yours '') (lower U line) \<or> prefix (lit U ''sincerely'') (lower U line)
     \<or> prefix (lit U ''faithfully'') (lower U line) \<or> prefix (lit U ''regards'') (lower U line)"
  "is_section_header U line \<longleftrightarrow> suffix (lit U '':'') line \<and> length line < 50"
  by (simp_all only: is_reference_or_date_def is_salutation_def is_subject_def is_closing_def
      is_section_header_def startswith_prefix endswith_suffix list_ex_Nil_iff list_ex_Cons_iff simp_thms)

lemma render_form_feed_letter:
  "render form_feed_letter =
     [(''Terms:'', SectionHeader),
      (''Pay within 30 days'' @ [CHR 0x0C] @ '' of invoice'', Body)]"
  by code_simp

lemma form_feed_letter_refused:
  "list_ex (\<lambda>b. has_refused latin1 (fst b)) (render_blocks latin1 form_feed_letter)"
  by code_simp

lemma example_letter_accepted:
  "\<not> list_ex (\<lambda>b. has_refused latin1 (fst b)) (render_blocks latin1 example_letter)"
  by code_simp

lemma example_letter_blocks: "length (render_blocks latin1 example_letter) = 9"
  by code_simp

lemma white_space_stripped: "strip latin1 '' \<newline>  '' = []"
  by code_simp

lemma last_three:
  "A1 \<and> A2 \<and> A3 \<and> A4 \<and> A5 \<and> A6 \<and> A7 \<and> A8 \<and> A9 \<and> A10 \<and> A11 \<and> A12 \<and> A13 \<and> A14
   \<and> A15 \<and> A16 \<and> A17 \<Longrightarrow> A15 \<and> A16 \<and> A17"
  by blast

text \<open>
  Claim C7, as the code has it. For every text, over any code points: the
  classification is total and gives every stripped line one role of the seven, the
  role of the first branch whose condition the line meets (blank; a prefix \<open>Date:\<close>, or
  \<open>ref:\<close> or \<open>reference:\<close> in lower case; a salutation prefix; the prefix \<open>subject:\<close>; a
  closing prefix; a final colon with fewer than 50 code points; body otherwise). The
  lines are the pieces of the stripped text between its line breaks, each stripped of
  white space at both ends, one block for each in order; a text that is empty or only
  white space gives exactly one block, and it is blank. Building the document raises
  \<open>ValueError\<close> when a line contains a code point that the XML layer refuses (a control
  character, other than tab, carriage return and line feed); otherwise it succeeds
  with one paragraph for each block.
\<close>

theorem classification_and_document:
  fixes U :: "'c unicode" and line loa_content :: "'c list"
  defines "date_or_reference \<equiv>
     prefix (lit U ''Date:'') line \<or> prefix (lit U ''ref:'') (lower U line)
     \<or> prefix (lit U ''reference:'') (lower U line)"
  defines "salutation \<equiv>
     prefix (lit U ''dear '') (lower U line) \<or> prefix (lit U ''to whom'') (lower U line)
     \<or> prefix (lit U ''sir'') (lower U line) \<or> prefix (lit U ''madam'') (lower U line)"
  defines "subject \<equiv> prefix (lit U ''subject:'') (lower U line)"
  defines "closing \<equiv>
     prefix (lit U ''yours '') (lower U line) \<or> prefix (lit U ''sincerely'') (lower U line)
     \<or> prefix (lit U ''faithfully'') (lower U line) \<or> prefix (lit U ''regards'') (lower U line)"
  defines "section_header \<equiv> suffix (lit U '':'') line \<and> length line < 50"
  defines "blocks \<equiv> render_blocks U loa_content"
  shows
   "(classify U line = Blank \<longleftrightarrow> line = [])
    \<and> (classify U line = ReferenceOrDate \<longleftrightarrow> line \<noteq> [] \<and> date_or_reference)
    \<and> (classify U line = Salutation \<longleftrightarrow> line \<noteq> [] \<and> \<not> date_or_reference \<and> salutation)
    \<and> (classify U line = Subject \<longleftrightarrow>
         line \<noteq> [] \<and> \<not> date_or_reference \<and> \<not> salutation \<and> subject)
    \<and> (classify U line = Closing \<longleftrightarrow>
         line \<noteq> [] \<and> \<not> date_or_reference \<and> \<not> salutation \<and> \<not> subject \<and> closing)
    \<and> (classify U line = SectionHeader \<longleftrightarrow>
         line \<noteq> [] \<and> \<not> date_or_reference \<and> \<not> salutation \<and> \<not> subject \<and> \<not> closing
         \<and> section_header)
    \<and> (classify U line = Body \<longleftrightarrow>
         line \<noteq> [] \<and> \<not> date_or_reference \<and> \<not> salutation \<and> \<not> subject \<and> \<not> closing
         \<and> \<not> section_header)
    \<and> (\<exists>before after. loa_content = before @ strip U loa_content @ after
          \<and> list_all (isspace U) before \<and> list_all (isspace U) after)
    \<and> (strip U loa_content = []
        \<or> (\<not> isspace U (hd (strip U loa_content)) \<and> \<not> isspace U (last (strip U loa_content))))
    \<and> join [ascii U newline] (split (ascii U newline) (strip U loa_content)) = strip U loa_content
    \<and> list_all (\<lambda>piece. ascii U newline \<notin> set piece) (split (ascii U newline) (strip U loa_content))
    \<and> map fst blocks = map (strip U) (split (ascii U newline) (strip U loa_content))
    \<and> map snd blocks = map (classify U) (map fst blocks)
    \<and> length blocks = Suc (length (filter (\<lambda>c. c = ascii U newline) (strip U loa_content)))
    \<and> (strip U loa_content = [] \<longrightarrow> blocks = [([], Blank)])
    \<and> (list_ex (\<lambda>b. has_refused U (fst b)) blocks \<longrightarrow>
         create_word_document U loa_content = Inl ValueError)
    \<and> (\<not> list_ex (\<lambda>b. has_refused U (fst b)) blocks \<longrightarrow>
         (\<exists>doc. create_word_document U loa_content = Inr doc
            \<and> length (paragraphs doc) = length blocks
            \<and> map alignment (paragraphs doc) = map (\<lambda>b. fst (paragraph_style (snd b))) blocks))"
proof -
  have c: "(classify U line = Blank \<longleftrightarrow> line = [])
    \<and> (classify U line = ReferenceOrDate \<longleftrightarrow> line \<noteq> [] \<and> date_or_reference)
    \<and> (classify U line = Salutation \<longleftrightarrow> line \<noteq> [] \<and> \<not> date_or_reference \<and> salutation)
    \<and> (classify U line = Subject \<longleftrightarrow>
         line \<noteq> [] \<and> \<not> date_or_reference \<and> \<not> salutation \<and> subject)
    \<and> (classify U line = Closing \<longleftrightarrow>
         line \<noteq> [] \<and> \<not> date_or_reference \<and> \<not> salutation \<and> \<not> subject \<and> closing)
    \<and> (classify U line = SectionHeader \<longleftrightarrow>
         line \<noteq> [] \<and> \<not> date_or_reference \<and> \<not> salutation \<and> \<not> subject \<and> \<not> closing
         \<and> section_header)
    \<and> (classify U line = Body \<longleftrightarrow>
         line \<noteq> [] \<and> \<not> date_or_reference \<and> \<not> salutation \<and> \<not> subject \<and> \<not> closing
         \<and> \<not> section_header)"
    unfolding date_or_reference_def salutation_def subject_def closing_def section_header_def
    using classify_roles [of U line]
    by (simp only: conditions_by_prefix)
  have s1: "\<exists>before after. loa_content = before @ strip U loa_content @ after
          \<and> list_all (isspace U) before \<and> list_all (isspace U) after"
    by (rule strip_shape)
  have s2: "strip U loa_content = []
        \<or> (\<not> isspace U (hd (strip U loa_content)) \<and> \<not> isspace U (last (strip U loa_content)))"
    by (rule strip_ends)
  have l1: "join [ascii U newline] (split (ascii U newline) (strip U loa_content)) = strip U loa_content"
    by (rule join_split)
  have l2: "list_all (\<lambda>piece. ascii U newline \<notin> set piece)
      (split (ascii U newline) (strip U loa_content))"
    by (rule split_pieces)
  have b1: "map fst blocks = map (strip U) (split (ascii U newline) (strip U loa_content))"
    by (simp add: blocks_def render_blocks_def comp_def)
  have b2: "map snd blocks = map (classify U) (map fst blocks)"
    by (simp add: blocks_def render_blocks_def comp_def)
  have b3: "length blocks = Suc (length (filter (\<lambda>c. c = ascii U newline) (strip U loa_content)))"
    by (simp add: blocks_def render_blocks_def length_split)
  have e: "strip U loa_content = [] \<longrightarrow> blocks = [([], Blank)]"
    by (simp add: blocks_def render_blocks_def classify_def strip_Nil)
  have d1: "list_ex (\<lambda>b. has_refused U (fst b)) blocks \<longrightarrow>
         create_word_document U loa_content = Inl ValueError"
    by (simp add: blocks_def create_word_document_eq)
  have d2: "\<not> list_ex (\<lambda>b. has_refused U (fst b)) blocks \<longrightarrow>
         (\<exists>doc. create_word_document U loa_content = Inr doc
            \<and> length (paragraphs doc) = length blocks
            \<and> map alignment (paragraphs doc) = map (\<lambda>b. fst (paragraph_style (snd b))) blocks)"
    by (simp add: blocks_def create_word_document_eq block_paragraph_def comp_def)
  from c s1 s2 l1 l2 b1 b2 b3 e d1 d2 show ?thesis
    by (intro conjI) (elim conjE, assumption)+
qed

theorem classification_and_document_witness:
  "strip latin1 '' \<newline>  '' = []
   \<and> render_blocks latin1 '' \<newline>  '' = [([], Blank)]
   \<and> list_ex (\<lambda>b. has_refused latin1 (fst b)) (render_blocks latin1 form_feed_letter)
   \<and> create_word_document latin1 form_feed_letter = Inl ValueError
   \<and> \<not> list_ex (\<lambda>b. has_refused latin1 (fst b)) (render_blocks latin1 example_letter)
   \<and> (\<exists>doc. create_word_document latin1 example_letter = Inr doc
         \<and> length (paragraphs doc) = 9)"
proof -
  note t1 = last_three [OF classification_and_document
      [where U = latin1 and loa_content = "'' \<newline>  ''"]]
  note t2 = last_three [OF classification_and_document
      [where U = latin1 and loa_content = form_feed_letter]]
  note t3 = last_three [OF classification_and_document
      [where U = latin1 and loa_content = example_letter]]
  from t1 [THEN conjunct1, THEN mp, OF white_space_stripped]
  have a: "render_blocks latin1 '' \<newline>  '' = [([], Blank)]" .
  from t2 [THEN conjunct2, THEN conjunct1, THEN mp, OF form_feed_letter_refused]
  have b: "create_word_document latin1 form_feed_letter = Inl ValueError" .
  from t3 [THEN conjunct2, THEN conjunct2, THEN mp, OF example_letter_accepted]
  obtain doc where d: "create_word_document latin1 example_letter = Inr doc"
    and "length (paragraphs doc) = length (render_blocks latin1 example_letter)"
    by (elim exE conjE)
  then have "length (paragraphs doc) = 9"
    by (simp only: example_letter_blocks)
  with d have c: "\<exists>doc. create_word_document latin1 example_letter = Inr doc
         \<and> length (paragraphs doc) = 9"
    by (intro exI conjI)
  from white_space_stripped a form_feed_letter_refused b example_letter_accepted c
  show ?thesis
    by (intro conjI)
qed

text \<open>
  Claim C7 as stated fails where it says that the renderer never fails: on a letter
  with a form feed inside a line, the lines are classified (section-header, body) and
  the building of the document raises \<open>ValueError\<close>.
\<close>

theorem form_feed_raises:
  "render form_feed_letter =
     [(''Terms:'', SectionHeader),
      (''Pay within 30 days'' @ [CHR 0x0C] @ '' of invoice'', Body)]
   \<and> create_word_document latin1 form_feed_letter = Inl ValueError"
  using render_form_feed_letter form_feed_letter_refused
  by (simp only: create_word_document_eq if_True simp_thms)


end
